theory Spec2Isabelle
  imports Complex_Main "HOL-Library.Log_Nat"
begin

section \<open>JavaScript numbers\<close>

text \<open>
  The edge functions compute with JavaScript numbers, that is IEEE 754 binary64 values.
  A finite number is modelled by the rational it denotes. Every arithmetic operation of
  the source is the exact operation followed by \<open>dbl\<close>, rounding to the nearest value
  with a 53-bit significand, ties to the even significand. The exponent range is not
  bounded, so overflow to \<open>Infinity\<close> and gradual underflow are outside the model; both
  are out of reach of cent amounts. \<open>NaN\<close> is modelled where the source tests for it
  (a price is a \<open>number option\<close>).
\<close>

type_synonym number = rat

text \<open>\<open>ilog2 x\<close> is the binary exponent of a positive \<open>x\<close>: \<open>2 powi ilog2 x \<le> x < 2 powi (ilog2 x + 1)\<close>.\<close>

definition ilog2 :: "rat \<Rightarrow> int" where
  "ilog2 x = (if 1 \<le> x then bitlen \<lfloor>x\<rfloor> - 1 else - bitlen (\<lceil>1 / x\<rceil> - 1))"

text \<open>Rounding to the nearest integer, ties to even.\<close>

definition rne :: "rat \<Rightarrow> int" where
  "rne y = (let f = \<lfloor>y\<rfloor>; d = y - of_int f in
     if d < 1 / 2 then f else if 1 / 2 < d then f + 1 else if even f then f else f + 1)"

definition dblp :: "rat \<Rightarrow> rat" where
  "dblp x = (let e = ilog2 x - 52 in of_int (rne (x / (2 powi e))) * (2 powi e))"

definition dbl :: "rat \<Rightarrow> number" where
  "dbl x = (if x = 0 then 0 else if x < 0 then - dblp (- x) else dblp x)"

definition fmul :: "number \<Rightarrow> number \<Rightarrow> number" where
  "fmul x y = dbl (x * y)"

definition fdiv :: "number \<Rightarrow> number \<Rightarrow> number" where
  "fdiv x y = dbl (x / y)"

definition fadd :: "number \<Rightarrow> number \<Rightarrow> number" where
  "fadd x y = dbl (x + y)"

definition fsub :: "number \<Rightarrow> number \<Rightarrow> number" where
  "fsub x y = dbl (x - y)"

text \<open>\<open>Math.round\<close>: the nearest integer, a tie going towards plus infinity.\<close>

definition Math_round :: "number \<Rightarrow> number" where
  "Math_round x = of_int \<lfloor>x + 1 / 2\<rfloor>"

section \<open>The fee calculator\<close>

text \<open>
  \<open>calculatePlatformFee\<close> of \<open>create-checkout/index.ts\<close>. The rate literals \<open>0.049\<close>,
  \<open>0.039\<close>, \<open>0.029\<close>, \<open>0.019\<close> and \<open>0.015\<close> denote the binary64 values nearest to them.
\<close>

definition calculatePlatformFee :: "number \<Rightarrow> number" where
  "calculatePlatformFee amountInCents =
    (let amountInDollars = fdiv amountInCents 100 in
     if amountInDollars < 100 then fadd (Math_round (fmul amountInCents (dbl (49 / 1000)))) 30
     else if amountInDollars < 500 then fadd (Math_round (fmul amountInCents (dbl (39 / 1000)))) 30
     else if amountInDollars < 1000 then fadd (Math_round (fmul amountInCents (dbl (29 / 1000)))) 30
     else if amountInDollars < 2500 then fadd (Math_round (fmul amountInCents (dbl (19 / 1000)))) 30
     else Math_round (fmul amountInCents (dbl (15 / 1000))))"

section \<open>Stored data\<close>

text \<open>
  The tables the handlers read and write, with the columns they use. A nullable column is
  an \<open>option\<close>. \<open>price\<close> holds the result of \<open>parseFloat(job.price)\<close>: \<open>None\<close> stands for a
  value that is no number.
\<close>

record job =
  job_id :: string
  job_name :: "string option"
  client_name :: "string option"
  price :: "number option"
  company_id :: "string option"
  job_status :: "string option"
  paid_at :: "string option"
  payment_url :: "string option"
  stripe_checkout_url :: "string option"
  receipt_id :: "string option"

record profile =
  profile_id :: string
  profile_company_id :: "string option"
  stripe_account_id :: "string option"
  stripe_connected :: "bool option"
  profile_updated_at :: "string option"

text \<open>
  The rendered receipt. The markup itself and the two dates it prints in the locale of the
  runtime are left out; the values the template embeds are kept.
\<close>

record receipt_document =
  doc_invoice :: string
  doc_service :: string
  doc_client :: string
  doc_service_amount :: number
  doc_processing_fee :: number
  doc_total_paid :: number
  doc_receipt_id :: string

record receipt =
  rc_id :: string
  rc_job_id :: string
  rc_session_id :: string
  rc_amount_paid :: int
  rc_receipt_html :: receipt_document
  rc_created_at :: string

record database =
  jobs :: "job list"
  profiles :: "profile list"
  receipts :: "receipt list"

text \<open>JavaScript truthiness of a nullable string, and \<open>v || d\<close>.\<close>

definition truthy :: "string option \<Rightarrow> bool" where
  "truthy v = (case v of None \<Rightarrow> False | Some s \<Rightarrow> s \<noteq> [])"

definition or_default :: "string option \<Rightarrow> string \<Rightarrow> string" where
  "or_default v d = (case v of None \<Rightarrow> d | Some s \<Rightarrow> if s = [] then d else s)"

text \<open>\<open>.single()\<close> of the database client: exactly one row, or an error.\<close>

fun single :: "'a list \<Rightarrow> string + 'a" where
  "single [x] = Inr x"
| "single xs = Inl ''JSON object requested, multiple (or no) rows returned''"

definition select_job :: "database \<Rightarrow> string \<Rightarrow> string + job" where
  "select_job db jobId = single (filter (\<lambda>j. job_id j = jobId) (jobs db))"

definition update_job :: "string \<Rightarrow> (job \<Rightarrow> job) \<Rightarrow> database \<Rightarrow> database" where
  "update_job jobId f db = db\<lparr>jobs := map (\<lambda>j. if job_id j = jobId then f j else j) (jobs db)\<rparr>"

definition update_profile :: "string \<Rightarrow> (profile \<Rightarrow> profile) \<Rightarrow> database \<Rightarrow> database" where
  "update_profile userId f db =
     db\<lparr>profiles := map (\<lambda>p. if profile_id p = userId then f p else p) (profiles db)\<rparr>"

section \<open>The payment processor and the runtime\<close>

record stripe_account =
  acct_id :: string
  details_submitted :: bool
  charges_enabled :: bool

record checkout_session =
  cs_id :: string
  cs_url :: string
  cs_metadata_job_id :: "string option"
  cs_amount_total :: "int option"

record stripe_event =
  event_type :: string
  event_object :: checkout_session

record payment_intent_data =
  application_fee_amount :: number
  transfer_destination :: "string option"

text \<open>
  The metadata amounts are the numbers the source then prints with \<open>toString\<close>.
\<close>

record session_metadata =
  md_job_id :: string
  md_client_name :: string
  md_base_price :: number
  md_platform_fee :: number
  md_total_price :: number
  md_company_id :: string
  md_routing_method :: string

record session_config =
  payment_method_types :: "string list"
  currency :: string
  product_name :: string
  product_description :: string
  unit_amount :: number
  quantity :: nat
  mode :: string
  success_url :: string
  cancel_url :: string
  metadata :: session_metadata
  payment_intent :: "payment_intent_data option"

text \<open>
  What the processor answers to a request is not decided by the program: it is a
  parameter. A call that throws returns the message of the error on the left.
\<close>

record stripe_api =
  accounts_retrieve :: "string \<Rightarrow> string + stripe_account"
  accounts_create :: "string \<Rightarrow> string + stripe_account"
  accountLinks_create :: "string \<Rightarrow> string + string"
  checkout_sessions_create :: "session_config \<Rightarrow> string option \<Rightarrow> string + checkout_session"

text \<open>
  \<open>stripe.webhooks.constructEvent(body, signature, webhookSecret)\<close> sends no request: the
  SDK computes it. The handler imports \<open>stripe@14.21.0\<close> from \<open>esm.sh\<close> into the Deno
  runtime, and the build of the SDK for that runtime signs with the Web Crypto API, which
  works asynchronously only. The synchronous \<open>constructEvent\<close>, the one the handler
  calls, throws there on every payload, header and secret, whether the signature is
  genuine or not; only \<open>constructEventAsync\<close> can accept an event. The message of the
  error depends on the input; the handler logs it and reads nothing of it.
\<close>

definition webhooks_constructEvent :: "string \<Rightarrow> string \<Rightarrow> string \<Rightarrow> string + stripe_event" where
  "webhooks_constructEvent payload header secret =
     Inl ''SubtleCryptoProvider cannot be used in a synchronous context.''"

datatype stripe_call =
  AccountsRetrieve string
  | AccountsCreate string
  | AccountLinksCreate string
  | CheckoutSessionsCreate session_config "string option"

record env =
  STRIPE_SECRET_KEY :: "string option"
  STRIPE_WEBHOOK_SECRET :: "string option"

text \<open>
  \<open>now\<close> is \<open>new Date().toISOString()\<close>, \<open>randomUUID\<close> is \<open>crypto.randomUUID()\<close>, and
  \<open>fetch_ok\<close> tells whether the request to the receipt function gets through.
\<close>

record runtime =
  now :: string
  randomUUID :: string
  fetch_ok :: bool

section \<open>Requests and responses\<close>

datatype json_input = InvalidJson | JsonNull | JsonObject "string option"

text \<open>\<open>req_text\<close> and \<open>req_json\<close> are the two readings of the body, \<open>req.text()\<close> and \<open>req.json()\<close>.\<close>

record request =
  req_method :: string
  origin :: "string option"
  authorization :: "string option"
  stripe_signature :: "string option"
  req_text :: string
  req_json :: json_input

record pricing_info_t =
  base_price :: number
  platform_fee :: number
  total_customer_pays :: number
  fee_percentage :: number
  connect_used :: bool

record routing_info_t =
  routing_method :: string
  destination_account :: "string option"
  fee_amount_cents :: number
  base_amount_cents :: number
  ri_charges_enabled :: bool

text \<open>A JSON object of a response: a field that is \<open>None\<close> is absent.\<close>

record json_object =
  success :: "bool option"
  url :: "string option"
  sessionId :: "string option"
  pricing_info :: "pricing_info_t option"
  routing_info :: "routing_info_t option"
  warning :: "string option"
  error :: "string option"
  details :: "string option"
  account_id :: "string option"
  already_connected :: "bool option"
  received :: "bool option"
  receiptId :: "string option"
  message :: "string option"

definition empty_object :: json_object where
  "empty_object = \<lparr>success = None, url = None, sessionId = None, pricing_info = None,
     routing_info = None, warning = None, error = None, details = None, account_id = None,
     already_connected = None, received = None, receiptId = None, message = None\<rparr>"

datatype response_body = NoBody | Text string | Json json_object

record response =
  status :: nat
  body :: response_body

record outcome =
  reply :: response
  db_after :: database
  stripe_calls :: "stripe_call list"

section \<open>Checkout initiation: \<open>create-checkout/index.ts\<close>\<close>

definition PLATFORM_STRIPE_ACCOUNT_ID :: string where
  "PLATFORM_STRIPE_ACCOUNT_ID = ''acct_1RWAfbLgPKVoUe8t''"

definition preflight :: response where
  "preflight = \<lparr>status = 200, body = NoBody\<rparr>"

text \<open>The \<open>{success: false, error}\<close> replies, all sent with status 200.\<close>

definition failure :: "string \<Rightarrow> response" where
  "failure msg = \<lparr>status = 200,
     body = Json (empty_object\<lparr>success := Some False, error := Some msg\<rparr>)\<rparr>"

text \<open>The reply of the outer \<open>catch\<close>: \<open>error.message || "Internal server error"\<close>.\<close>

definition caught :: "string \<Rightarrow> response" where
  "caught msg = \<lparr>status = 200,
     body = Json (empty_object\<lparr>success := Some False,
       error := Some (if msg = [] then ''Internal server error'' else msg),
       details := Some ''Check the function logs for more information''\<rparr>)\<rparr>"

definition missing_key :: response where
  "missing_key = \<lparr>status = 200,
     body = Json (empty_object\<lparr>success := Some False,
       error := Some ''Stripe configuration missing. Please add your Stripe secret key to edge function secrets.'',
       details := Some ''Go to Supabase Dashboard -> Edge Functions -> Settings and add STRIPE_SECRET_KEY''\<rparr>)\<rparr>"

text \<open>
  Lines 153 to 173: \<open>parseFloat\<close>, the test \<open>isNaN(jobPrice) || jobPrice <= 0\<close>, and the
  conversion to cents. \<open>None\<close> is the thrown "Invalid price value".
\<close>

definition basePriceInCents_of :: "job \<Rightarrow> number option" where
  "basePriceInCents_of j =
    (case price j of
       None \<Rightarrow> None
     | Some jobPrice \<Rightarrow> if jobPrice \<le> 0 then None else Some (Math_round (fmul jobPrice 100)))"

record validated =
  v_jobId :: string
  v_job :: job
  basePriceInCents :: number
  platformFee :: number
  totalPriceInCents :: number

text \<open>
  Lines 56 to 197, everything before the processor is used: the secret key, the request
  body, the job, its price, the fee and the minimum amount. A body that is JSON \<open>null\<close>
  makes the destructuring throw, which the outer \<open>catch\<close> reports. The test \<open>!job\<close> after
  a \<open>.single()\<close> without error has no row to reject.
\<close>

definition validateRequest :: "env \<Rightarrow> request \<Rightarrow> database \<Rightarrow> response + validated" where
  "validateRequest e req db =
    (if \<not> truthy (STRIPE_SECRET_KEY e) then Inl missing_key
     else case req_json req of
       InvalidJson \<Rightarrow> Inl (failure ''Invalid request body - must be valid JSON'')
     | JsonNull \<Rightarrow>
         Inl (caught ''Cannot destructure property 'jobId' of 'requestBody' as it is null.'')
     | JsonObject None \<Rightarrow> Inl (failure ''Job ID is required'')
     | JsonObject (Some jobId) \<Rightarrow>
         if jobId = [] then Inl (failure ''Job ID is required'')
         else case select_job db jobId of
           Inl jobError \<Rightarrow> Inl (failure (''Failed to fetch job: '' @ jobError))
         | Inr j \<Rightarrow>
            (case basePriceInCents_of j of
               None \<Rightarrow> Inl (failure ''Invalid or missing price in job data'')
             | Some base \<Rightarrow>
                 let fee = calculatePlatformFee base;
                     total = fadd base fee
                 in if total < 50
                    then Inl (failure ''Job price too low for payment processing (minimum $0.50 total including fee)'')
                    else Inr \<lparr>v_jobId = jobId, v_job = j, basePriceInCents = base,
                               platformFee = fee, totalPriceInCents = total\<rparr>))"

record routing =
  useStripeConnect :: bool
  connectedStripeAccountId :: "string option"
  connectedAccountChargesEnabled :: bool

definition platform_routing :: routing where
  "platform_routing = \<lparr>useStripeConnect = False, connectedStripeAccountId = None,
     connectedAccountChargesEnabled = False\<rparr>"

text \<open>
  The profile query of lines 211 to 216: the rows of the company that are marked connected,
  \<open>.single()\<close>.
\<close>

definition select_company_profile :: "database \<Rightarrow> string option \<Rightarrow> string + profile" where
  "select_company_profile db cid =
     single (filter (\<lambda>p. profile_company_id p = cid \<and> stripe_connected p = Some True) (profiles db))"

text \<open>Lines 204 to 250: the account router, with the processor calls it makes.\<close>

definition determineRouting :: "stripe_api \<Rightarrow> database \<Rightarrow> job \<Rightarrow> routing \<times> stripe_call list" where
  "determineRouting stripe db j =
    (if truthy (company_id j) then
       (case select_company_profile db (company_id j) of
          Inl profileError \<Rightarrow> (platform_routing, [])
        | Inr companyProfile \<Rightarrow>
           (case stripe_account_id companyProfile of
              None \<Rightarrow> (platform_routing, [])
            | Some acct \<Rightarrow>
                if acct = [] then (platform_routing, [])
                else if acct \<noteq> PLATFORM_STRIPE_ACCOUNT_ID then
                  (case accounts_retrieve stripe acct of
                     Inl accountError \<Rightarrow>
                       (platform_routing\<lparr>connectedStripeAccountId := Some acct\<rparr>,
                        [AccountsRetrieve acct])
                   | Inr account \<Rightarrow>
                       (\<lparr>useStripeConnect = charges_enabled account,
                         connectedStripeAccountId = Some acct,
                         connectedAccountChargesEnabled = charges_enabled account\<rparr>,
                        [AccountsRetrieve acct]))
                else (platform_routing\<lparr>connectedStripeAccountId := Some acct\<rparr>, [])))
     else (platform_routing, []))"

definition routing_name :: "routing \<Rightarrow> string" where
  "routing_name r = (if useStripeConnect r then ''stripe_connect_updated_tiers'' else ''platform_only'')"

text \<open>A template literal prints a missing \<open>origin\<close> header as \<open>null\<close>.\<close>

definition origin_text :: "request \<Rightarrow> string" where
  "origin_text req = (case origin req of None \<Rightarrow> ''null'' | Some s \<Rightarrow> s)"

text \<open>Lines 254 to 295: the session configuration and the guarded split instructions.\<close>

definition buildSessionConfig :: "request \<Rightarrow> validated \<Rightarrow> routing \<Rightarrow> session_config" where
  "buildSessionConfig req v r =
    (let sessionConfig =
       \<lparr>payment_method_types = [''card''],
        currency = ''usd'',
        product_name = or_default (job_name (v_job v)) ''Service'',
        product_description = ''Service for '' @ or_default (client_name (v_job v)) ''Client'',
        unit_amount = totalPriceInCents v,
        quantity = 1,
        mode = ''payment'',
        success_url = origin_text req @ ''/payment-success?session_id={CHECKOUT_SESSION_ID}'',
        cancel_url = origin_text req @ ''/'',
        metadata =
          \<lparr>md_job_id = v_jobId v,
           md_client_name = or_default (client_name (v_job v)) ''Unknown Client'',
           md_base_price = fdiv (basePriceInCents v) 100,
           md_platform_fee = fdiv (platformFee v) 100,
           md_total_price = fdiv (totalPriceInCents v) 100,
           md_company_id = or_default (company_id (v_job v)) '''',
           md_routing_method = routing_name r\<rparr>,
        payment_intent = None\<rparr>
     in if useStripeConnect r \<and> 0 < platformFee v
        then sessionConfig\<lparr>payment_intent :=
               Some \<lparr>application_fee_amount = platformFee v,
                     transfer_destination = connectedStripeAccountId r\<rparr>\<rparr>
        else sessionConfig)"

text \<open>
  Lines 324 to 348. \<open>fee_percentage\<close> is the number the source then prints with
  \<open>toFixed(2)\<close> and a percent sign.
\<close>

definition success_reply :: "validated \<Rightarrow> routing \<Rightarrow> checkout_session \<Rightarrow> response" where
  "success_reply v r session = \<lparr>status = 200,
     body = Json (empty_object\<lparr>
       success := Some True,
       url := Some (cs_url session),
       sessionId := Some (cs_id session),
       pricing_info := Some
         \<lparr>base_price = fdiv (basePriceInCents v) 100,
          platform_fee = fdiv (platformFee v) 100,
          total_customer_pays = fdiv (totalPriceInCents v) 100,
          fee_percentage = fmul (fdiv (platformFee v) (basePriceInCents v)) 100,
          connect_used = useStripeConnect r\<rparr>,
       routing_info := Some
         \<lparr>routing_method = routing_name r,
          destination_account =
            (if useStripeConnect r then connectedStripeAccountId r else Some ''platform''),
          fee_amount_cents = platformFee v,
          base_amount_cents = basePriceInCents v,
          ri_charges_enabled = connectedAccountChargesEnabled r\<rparr>\<rparr>)\<rparr>"

text \<open>Lines 362 to 373.\<close>

definition fallback_reply :: "checkout_session \<Rightarrow> response" where
  "fallback_reply fallbackSession = \<lparr>status = 200,
     body = Json (empty_object\<lparr>
       success := Some True,
       url := Some (cs_url fallbackSession),
       sessionId := Some (cs_id fallbackSession),
       warning := Some ''Routed to platform account due to Stripe Connect issue''\<rparr>)\<rparr>"

text \<open>
  Lines 297 to 378 and the outer \<open>catch\<close>: the processor call, the stored link, and the
  platform-only retry. \<open>calls\<close> are the processor calls made so far.
\<close>

definition createSession ::
  "stripe_api \<Rightarrow> database \<Rightarrow> validated \<Rightarrow> routing \<Rightarrow> session_config \<Rightarrow> stripe_call list \<Rightarrow> outcome"
where
  "createSession stripe db v r sessionConfig calls =
    (let stripeAccount =
           (if useStripeConnect r \<and> truthy (connectedStripeAccountId r)
            then connectedStripeAccountId r else None);
         first = CheckoutSessionsCreate sessionConfig stripeAccount
     in case checkout_sessions_create stripe sessionConfig stripeAccount of
          Inr session \<Rightarrow>
            \<lparr>reply = success_reply v r session,
             db_after = update_job (v_jobId v)
               (\<lambda>j. j\<lparr>payment_url := Some (cs_url session),
                       stripe_checkout_url := Some (cs_url session)\<rparr>) db,
             stripe_calls = calls @ [first]\<rparr>
        | Inl stripeError \<Rightarrow>
            if useStripeConnect r then
              (let fallbackConfig = sessionConfig\<lparr>payment_intent := None\<rparr>;
                   second = CheckoutSessionsCreate fallbackConfig None
               in case checkout_sessions_create stripe fallbackConfig None of
                    Inr fallbackSession \<Rightarrow>
                      \<lparr>reply = fallback_reply fallbackSession, db_after = db,
                       stripe_calls = calls @ [first, second]\<rparr>
                  | Inl fallbackError \<Rightarrow>
                      \<lparr>reply = caught fallbackError, db_after = db,
                       stripe_calls = calls @ [first, second]\<rparr>)
            else \<lparr>reply = caught stripeError, db_after = db, stripe_calls = calls @ [first]\<rparr>)"

definition create_checkout :: "env \<Rightarrow> stripe_api \<Rightarrow> request \<Rightarrow> database \<Rightarrow> outcome" where
  "create_checkout e stripe req db =
    (if req_method req = ''OPTIONS'' then \<lparr>reply = preflight, db_after = db, stripe_calls = []\<rparr>
     else case validateRequest e req db of
       Inl r \<Rightarrow> \<lparr>reply = r, db_after = db, stripe_calls = []\<rparr>
     | Inr v \<Rightarrow>
         (case determineRouting stripe db (v_job v) of
            (r, calls) \<Rightarrow> createSession stripe db v r (buildSessionConfig req v r) calls))"

section \<open>Receipts: \<open>generate-receipt/index.ts\<close>\<close>

record ReceiptData =
  rd_jobId :: string
  rd_sessionId :: string
  rd_amountPaid :: "int option"
  rd_paymentDate :: string

definition to_upper :: "char \<Rightarrow> char" where
  "to_upper c = (let n = of_char c :: nat in if 97 \<le> n \<and> n \<le> 122 then char_of (n - 32) else c)"

text \<open>
  \<open>generateReceiptHTML\<close>: the fee is the amount paid, in dollars, less the stored price of
  the job. A missing amount divides as zero.
\<close>

definition generateReceiptHTML :: "job \<Rightarrow> number \<Rightarrow> ReceiptData \<Rightarrow> receipt_document" where
  "generateReceiptHTML j baseAmount receiptData =
    (let totalAmount = fdiv (case rd_amountPaid receiptData of None \<Rightarrow> 0 | Some n \<Rightarrow> of_int n) 100;
         platformFee = fsub totalAmount baseAmount
     in \<lparr>doc_invoice = map to_upper (take 8 (job_id j)),
         doc_service = or_default (job_name j) ''Service'',
         doc_client = or_default (client_name j) ''N/A'',
         doc_service_amount = baseAmount,
         doc_processing_fee = platformFee,
         doc_total_paid = totalAmount,
         doc_receipt_id = rd_sessionId receiptData\<rparr>)"

definition server_error :: "string \<Rightarrow> response" where
  "server_error msg = \<lparr>status = 500, body = Json (empty_object\<lparr>error := Some msg\<rparr>)\<rparr>"

text \<open>
  The insert obeys the constraints of the \<open>receipts\<close> table: \<open>id\<close> is the primary key, and
  \<open>amount_paid\<close> is a 32-bit \<open>integer\<close> that is not null. A rejected insert is logged and
  the handler goes on.
\<close>

definition insert_receipt :: "receipt \<Rightarrow> database \<Rightarrow> database" where
  "insert_receipt r db =
    (if rc_id r \<in> set (map rc_id (receipts db)) then db
     else if rc_amount_paid r < - 2147483648 \<or> 2147483647 < rc_amount_paid r then db
     else db\<lparr>receipts := receipts db @ [r]\<rparr>)"

text \<open>
  \<open>jobs.receipt_id\<close> references \<open>receipts(id)\<close>: the link is written only if that receipt
  exists. The result of this update is not looked at.
\<close>

definition link_receipt :: "string \<Rightarrow> string \<Rightarrow> database \<Rightarrow> database" where
  "link_receipt jobId rid db =
    (if rid \<in> set (map rc_id (receipts db))
     then update_job jobId (\<lambda>j. j\<lparr>receipt_id := Some rid\<rparr>) db
     else db)"

definition generate_receipt :: "runtime \<Rightarrow> ReceiptData \<Rightarrow> database \<Rightarrow> response \<times> database" where
  "generate_receipt rt receiptData db =
    (case select_job db (rd_jobId receiptData) of
       Inl jobError \<Rightarrow> (server_error ''Job not found'', db)
     | Inr j \<Rightarrow>
        (case price j of
           None \<Rightarrow> (server_error ''Cannot read properties of null (reading 'toFixed')'', db)
         | Some baseAmount \<Rightarrow>
            let receiptHTML = generateReceiptHTML j baseAmount receiptData;
                rid = randomUUID rt;
                db1 = (case rd_amountPaid receiptData of
                         None \<Rightarrow> db
                       | Some amount \<Rightarrow>
                           insert_receipt
                             \<lparr>rc_id = rid, rc_job_id = rd_jobId receiptData,
                              rc_session_id = rd_sessionId receiptData, rc_amount_paid = amount,
                              rc_receipt_html = receiptHTML, rc_created_at = now rt\<rparr> db);
                db2 = link_receipt (rd_jobId receiptData) rid db1
            in (\<lparr>status = 200,
                 body = Json (empty_object\<lparr>success := Some True, receiptId := Some rid,
                   message := Some ''Receipt generated successfully''\<rparr>)\<rparr>, db2)))"

section \<open>The webhook reconciler\<close>

text \<open>
  The second handler of \<open>generate-receipt/index.ts\<close>. \<open>rt\<close> is the runtime of the webhook
  and \<open>rt'\<close> that of the receipt function it calls over HTTP. A request that does not get
  through, and a reply that is not ok, are logged and change nothing.
\<close>

definition stripe_webhook ::
  "env \<Rightarrow> runtime \<Rightarrow> runtime \<Rightarrow> request \<Rightarrow> database \<Rightarrow> response \<times> database"
where
  "stripe_webhook e rt rt' req db =
    (if req_method req = ''OPTIONS'' then (preflight, db)
     else if \<not> truthy (stripe_signature req) then (server_error ''No Stripe signature found'', db)
     else if \<not> truthy (STRIPE_SECRET_KEY e) \<or> \<not> truthy (STRIPE_WEBHOOK_SECRET e)
       then (server_error ''Missing Stripe configuration'', db)
     else case webhooks_constructEvent (req_text req)
                 (or_default (stripe_signature req) []) (or_default (STRIPE_WEBHOOK_SECRET e) []) of
       Inl err \<Rightarrow> (\<lparr>status = 400, body = Text ''Webhook signature verification failed''\<rparr>, db)
     | Inr event \<Rightarrow>
         if event_type event = ''checkout.session.completed'' then
           (let session = event_object event in
            if \<not> truthy (cs_metadata_job_id session)
            then (\<lparr>status = 400, body = Text ''No job_id in metadata''\<rparr>, db)
            else
              (let jobId = or_default (cs_metadata_job_id session) [] in
               case select_job db jobId of
                 Inl jobUpdateError \<Rightarrow> (server_error ''Failed to update job status'', db)
               | Inr updatedJob \<Rightarrow>
                   let db1 = update_job jobId
                               (\<lambda>j. j\<lparr>job_status := Some ''paid'', paid_at := Some (now rt)\<rparr>) db;
                       db2 = (if fetch_ok rt
                              then snd (generate_receipt rt'
                                     \<lparr>rd_jobId = jobId, rd_sessionId = cs_id session,
                                      rd_amountPaid = cs_amount_total session,
                                      rd_paymentDate = now rt\<rparr> db1)
                              else db1)
                   in (\<lparr>status = 200, body = Json (empty_object\<lparr>received := Some True\<rparr>)\<rparr>, db2)))
         else (\<lparr>status = 200, body = Json (empty_object\<lparr>received := Some True\<rparr>)\<rparr>, db))"



section \<open>Account onboarding: \<open>stripe-connect/index.ts\<close>\<close>

record auth_user =
  user_id :: string
  user_email :: "string option"

definition unauthorized :: "string \<Rightarrow> response" where
  "unauthorized msg = \<lparr>status = 401,
     body = Json (empty_object\<lparr>success := Some False, error := Some msg\<rparr>)\<rparr>"

definition connect_failed :: "string \<Rightarrow> response" where
  "connect_failed msg = \<lparr>status = 500,
     body = Json (empty_object\<lparr>success := Some False, error := Some msg\<rparr>)\<rparr>"

definition dashboard_url :: string where
  "dashboard_url = ''https://preview--bleu-smart-flow.lovable.app/''"

text \<open>\<open>authHeader.replace("Bearer ", "")\<close>: the first occurrence is removed.\<close>

fun remove_first :: "string \<Rightarrow> string \<Rightarrow> string" where
  "remove_first pat [] = []"
| "remove_first pat (c # cs) =
     (if take (length pat) (c # cs) = pat then drop (length pat) (c # cs)
      else c # remove_first pat cs)"

text \<open>
  Lines 125 to 192: create the account if there is none, store its id, create the
  onboarding link. A processor call that throws is reported by the outer \<open>catch\<close>.
\<close>

definition start_onboarding ::
  "env \<Rightarrow> stripe_api \<Rightarrow> runtime \<Rightarrow> auth_user \<Rightarrow> string option \<Rightarrow> database \<Rightarrow> stripe_call list \<Rightarrow> outcome"
where
  "start_onboarding e stripe rt user stored db calls =
    (if \<not> truthy (STRIPE_SECRET_KEY e)
     then \<lparr>reply = connect_failed ''Stripe configuration missing'', db_after = db, stripe_calls = calls\<rparr>
     else
       (let link = (\<lambda>accountId db' calls'.
              case accountLinks_create stripe accountId of
                Inl err \<Rightarrow>
                  \<lparr>reply = connect_failed (if err = [] then ''An unexpected error occurred'' else err),
                   db_after = db', stripe_calls = calls' @ [AccountLinksCreate accountId]\<rparr>
              | Inr link_url \<Rightarrow>
                  \<lparr>reply = \<lparr>status = 200,
                     body = Json (empty_object\<lparr>success := Some True, url := Some link_url,
                       account_id := Some accountId\<rparr>)\<rparr>,
                   db_after = db', stripe_calls = calls' @ [AccountLinksCreate accountId]\<rparr>)
        in if truthy stored then link (or_default stored []) db calls
           else
             (case accounts_create stripe (or_default (user_email user) []) of
                Inl err \<Rightarrow>
                  \<lparr>reply = connect_failed (if err = [] then ''An unexpected error occurred'' else err),
                   db_after = db,
                   stripe_calls = calls @ [AccountsCreate (or_default (user_email user) [])]\<rparr>
              | Inr account \<Rightarrow>
                  link (acct_id account)
                    (update_profile (user_id user)
                       (\<lambda>p. p\<lparr>stripe_account_id := Some (acct_id account),
                               profile_updated_at := Some (now rt)\<rparr>) db)
                    (calls @ [AccountsCreate (or_default (user_email user) [])]))))"

text \<open>
  \<open>getUser\<close> is the authentication service: the user of a token, or an error.
\<close>

definition stripe_connect ::
  "env \<Rightarrow> stripe_api \<Rightarrow> (string \<Rightarrow> string + auth_user) \<Rightarrow> runtime \<Rightarrow> request \<Rightarrow> database \<Rightarrow> outcome"
where
  "stripe_connect e stripe getUser rt req db =
    (if req_method req = ''OPTIONS'' then \<lparr>reply = preflight, db_after = db, stripe_calls = []\<rparr>
     else if \<not> truthy (authorization req)
       then \<lparr>reply = unauthorized ''No authorization header provided'', db_after = db, stripe_calls = []\<rparr>
     else case getUser (remove_first ''Bearer '' (or_default (authorization req) [])) of
       Inl userError \<Rightarrow>
         \<lparr>reply = unauthorized ''User not authenticated'', db_after = db, stripe_calls = []\<rparr>
     | Inr user \<Rightarrow>
         if \<not> truthy (user_email user)
         then \<lparr>reply = unauthorized ''User not authenticated'', db_after = db, stripe_calls = []\<rparr>
         else
           (case single (filter (\<lambda>p. profile_id p = user_id user) (profiles db)) of
              Inl profileError \<Rightarrow> start_onboarding e stripe rt user None db []
            | Inr p \<Rightarrow>
                if truthy (stripe_account_id p) then
                  (if \<not> truthy (STRIPE_SECRET_KEY e)
                   then \<lparr>reply = connect_failed ''Stripe configuration missing'', db_after = db,
                          stripe_calls = []\<rparr>
                   else
                     (let acct = or_default (stripe_account_id p) [] in
                      case accounts_retrieve stripe acct of
                        Inl stripeError \<Rightarrow>
                          start_onboarding e stripe rt user (stripe_account_id p) db
                            [AccountsRetrieve acct]
                      | Inr account \<Rightarrow>
                          let isConnected = (details_submitted account \<and> charges_enabled account);
                              db1 = (if Some isConnected \<noteq> stripe_connected p
                                     then update_profile (user_id user)
                                            (\<lambda>q. q\<lparr>stripe_connected := Some isConnected,
                                                    profile_updated_at := Some (now rt)\<rparr>) db
                                     else db)
                          in if isConnected
                             then \<lparr>reply = \<lparr>status = 200,
                                      body = Json (empty_object\<lparr>success := Some True,
                                        url := Some dashboard_url,
                                        already_connected := Some True\<rparr>)\<rparr>,
                                    db_after = db1, stripe_calls = [AccountsRetrieve acct]\<rparr>
                             else start_onboarding e stripe rt user (stripe_account_id p) db1
                                    [AccountsRetrieve acct]))
                else start_onboarding e stripe rt user (stripe_account_id p) db []))"

section \<open>Observations on a run\<close>

text \<open>The number of session creation calls among the processor calls of a run.\<close>

fun is_session_create :: "stripe_call \<Rightarrow> bool" where
  "is_session_create (CheckoutSessionsCreate cfg stripeAccount) = True"
| "is_session_create c = False"

definition session_creations :: "stripe_call list \<Rightarrow> nat" where
  "session_creations calls = length (filter is_session_create calls)"

text \<open>The JSON object of a reply; a reply without one has no field.\<close>

definition reply_json :: "response \<Rightarrow> json_object" where
  "reply_json r = (case body r of Json b \<Rightarrow> b | _ \<Rightarrow> empty_object)"

section \<open>Example worlds\<close>

text \<open>
  One tenant with a connected account, a job of 50 dollars and a job of one cent, and a
  processor that refuses session creation on the connected account and accepts it on the
  platform. The theorems below are run on them.
\<close>

definition ex_job :: job where
  "ex_job = \<lparr>job_id = ''job-1'', job_name = Some ''Lawn care'', client_name = Some ''Ada'',
     price = Some 50, company_id = Some ''co-1'', job_status = Some ''pending'', paid_at = None,
     payment_url = None, stripe_checkout_url = None, receipt_id = None\<rparr>"

definition ex_cheap_job :: job where
  "ex_cheap_job = ex_job\<lparr>job_id := ''job-2'', price := Some (dbl (1 / 100))\<rparr>"

definition ex_profile :: profile where
  "ex_profile = \<lparr>profile_id = ''user-1'', profile_company_id = Some ''co-1'',
     stripe_account_id = Some ''acct_tenant'', stripe_connected = Some True,
     profile_updated_at = None\<rparr>"

definition ex_db :: database where
  "ex_db = \<lparr>jobs = [ex_job, ex_cheap_job], profiles = [ex_profile], receipts = []\<rparr>"

definition ex_env :: env where
  "ex_env = \<lparr>STRIPE_SECRET_KEY = Some ''sk_test'', STRIPE_WEBHOOK_SECRET = Some ''whsec_test''\<rparr>"

definition ex_session :: checkout_session where
  "ex_session = \<lparr>cs_id = ''cs_1'', cs_url = ''https://checkout.example/cs_1'',
     cs_metadata_job_id = Some ''job-1'', cs_amount_total = Some 5275\<rparr>"

definition ex_account :: "bool \<Rightarrow> bool \<Rightarrow> string \<Rightarrow> string + stripe_account" where
  "ex_account submitted enabled a =
     Inr \<lparr>acct_id = a, details_submitted = submitted, charges_enabled = enabled\<rparr>"

definition ex_stripe :: stripe_api where
  "ex_stripe = \<lparr>
     accounts_retrieve = ex_account True True,
     accounts_create = ex_account False False,
     accountLinks_create = (\<lambda>a. Inr ''https://connect.example/onboarding''),
     checkout_sessions_create =
       (\<lambda>cfg stripeAccount. case stripeAccount of
            Some a \<Rightarrow> Inl ''No such destination''
          | None \<Rightarrow> Inr ex_session)\<rparr>"

definition ex_request :: request where
  "ex_request = \<lparr>req_method = ''POST'', origin = Some ''https://app.example'',
     authorization = Some ''Bearer token-1'', stripe_signature = Some ''good'',
     req_text = ''{}'', req_json = JsonObject (Some ''job-1'')\<rparr>"

definition ex_rt :: "string \<Rightarrow> runtime" where
  "ex_rt uuid = \<lparr>now = ''2025-07-01T00:00:00.000Z'', randomUUID = uuid, fetch_ok = True\<rparr>"

definition ex_getUser :: "string \<Rightarrow> string + auth_user" where
  "ex_getUser token =
     (if token = ''token-1'' then Inr \<lparr>user_id = ''user-1'', user_email = Some ''ada@example.com''\<rparr>
      else Inl ''invalid token'')"

definition ex_v :: validated where
  "ex_v = \<lparr>v_jobId = ''job-1'', v_job = ex_job, basePriceInCents = 5000, platformFee = 275,
     totalPriceInCents = 5275\<rparr>"

definition ex_connect :: routing where
  "ex_connect = \<lparr>useStripeConnect = True, connectedStripeAccountId = Some ''acct_tenant'',
     connectedAccountChargesEnabled = True\<rparr>"

text \<open>A processor on which the tenant cannot take charges and no session can be created.\<close>

definition ex_stripe_down :: stripe_api where
  "ex_stripe_down = ex_stripe\<lparr>accounts_retrieve := ex_account True False,
     checkout_sessions_create := (\<lambda>cfg stripeAccount. Inl ''api down'')\<rparr>"




section \<open>Rounding to binary64\<close>

text \<open>
  The relative error of \<open>dbl\<close> is at most \<open>2\<^sup>-\<^sup>5\<^sup>3\<close>, and \<open>dbl\<close> never crosses an
  integer of at most 53 bits. These two facts carry every proof about amounts below.
\<close>

lemma ilog2_bounds:
  assumes "0 < x"
  shows "2 powi (ilog2 x) \<le> x" and "x < 2 powi (ilog2 x + 1)"
proof -
  show "2 powi (ilog2 x) \<le> x"
  proof (cases "1 \<le> x")
    case True
    then have n: "0 < \<lfloor>x\<rfloor>" by linarith
    from bitlen_bounds[OF n] have "2 ^ nat (bitlen \<lfloor>x\<rfloor> - 1) \<le> \<lfloor>x\<rfloor>" by simp
    then have "(of_int (2 ^ nat (bitlen \<lfloor>x\<rfloor> - 1)) :: rat) \<le> of_int \<lfloor>x\<rfloor>"
      by (simp only: of_int_le_iff)
    also have "\<dots> \<le> x" by simp
    finally have "(2::rat) ^ nat (bitlen \<lfloor>x\<rfloor> - 1) \<le> x" by simp
    moreover have "1 \<le> bitlen \<lfloor>x\<rfloor>" using n by (auto simp: bitlen_alt_def)
    ultimately show ?thesis using True by (simp add: ilog2_def power_int_def)
  next
    case False
    define m where "m = \<lceil>1 / x\<rceil> - 1"
    from False assms have y: "1 < 1 / x" by simp
    then have m: "0 < m" unfolding m_def by linarith
    from bitlen_bounds[OF m] have "m < 2 ^ nat (bitlen m)" by simp
    then have "m + 1 \<le> 2 ^ nat (bitlen m)" by simp
    then have "(of_int (m + 1) :: rat) \<le> of_int (2 ^ nat (bitlen m))"
      by (simp only: of_int_le_iff)
    moreover have "1 / x \<le> of_int (m + 1)" unfolding m_def by simp
    ultimately have "1 / x \<le> 2 ^ nat (bitlen m)" by simp
    then have "1 / 2 ^ nat (bitlen m) \<le> x" using assms
      by (simp add: field_simps)
    moreover have "1 \<le> bitlen m" using m by (auto simp: bitlen_alt_def)
    ultimately show ?thesis using False
      by (simp add: ilog2_def m_def[symmetric] power_int_def inverse_eq_divide power_one_over)
  qed
  show "x < 2 powi (ilog2 x + 1)"
  proof (cases "1 \<le> x")
    case True
    then have n: "0 < \<lfloor>x\<rfloor>" by linarith
    from bitlen_bounds[OF n] have "\<lfloor>x\<rfloor> + 1 \<le> 2 ^ nat (bitlen \<lfloor>x\<rfloor>)" by simp
    then have "(of_int (\<lfloor>x\<rfloor> + 1) :: rat) \<le> of_int (2 ^ nat (bitlen \<lfloor>x\<rfloor>))"
      by (simp only: of_int_le_iff)
    moreover have "x < of_int (\<lfloor>x\<rfloor> + 1)" by linarith
    ultimately have "x < 2 ^ nat (bitlen \<lfloor>x\<rfloor>)" by simp
    moreover have "0 \<le> bitlen \<lfloor>x\<rfloor>" by (rule bitlen_nonneg)
    ultimately show ?thesis using True by (simp add: ilog2_def power_int_def)
  next
    case False
    define m where "m = \<lceil>1 / x\<rceil> - 1"
    from False assms have y: "1 < 1 / x" by simp
    then have m: "0 < m" unfolding m_def by linarith
    have b1: "1 \<le> bitlen m" using m by (auto simp: bitlen_alt_def)
    from bitlen_bounds[OF m] have "2 ^ nat (bitlen m - 1) \<le> m" by simp
    then have "(2::rat) ^ nat (bitlen m - 1) \<le> of_int m" by simp
    moreover have "of_int m < 1 / x" unfolding m_def by linarith
    ultimately have "2 ^ nat (bitlen m - 1) < 1 / x" by linarith
    then have "x < 1 / 2 ^ nat (bitlen m - 1)" using assms
      by (simp add: field_simps)
    moreover have "nat (bitlen m - 1) = nat (bitlen m) - 1" using b1 by simp
    ultimately show ?thesis using False b1
      by (auto simp add: ilog2_def m_def[symmetric] power_int_def inverse_eq_divide power_one_over nat_diff_distrib)
  qed
qed

lemma rne_cases:
  "rne y = \<lfloor>y\<rfloor> \<and> y - of_int \<lfloor>y\<rfloor> \<le> 1 / 2 \<or> rne y = \<lfloor>y\<rfloor> + 1 \<and> 1 / 2 \<le> y - of_int \<lfloor>y\<rfloor>"
  unfolding rne_def Let_def by (cases "y - of_int \<lfloor>y\<rfloor> < 1 / 2") auto

lemma rne_err: "\<bar>of_int (rne y) - y\<bar> \<le> 1 / 2"
proof -
  have a: "of_int \<lfloor>y\<rfloor> \<le> y" "y < of_int \<lfloor>y\<rfloor> + 1" by linarith+
  from rne_cases[of y] show ?thesis
  proof
    assume h: "rne y = \<lfloor>y\<rfloor> \<and> y - of_int \<lfloor>y\<rfloor> \<le> 1 / 2"
    then have "of_int (rne y) = (of_int \<lfloor>y\<rfloor> :: rat)" by simp
    with h a show ?thesis by linarith
  next
    assume h: "rne y = \<lfloor>y\<rfloor> + 1 \<and> 1 / 2 \<le> y - of_int \<lfloor>y\<rfloor>"
    then have "of_int (rne y) = (of_int \<lfloor>y\<rfloor> :: rat) + 1" by simp
    with h a show ?thesis by linarith
  qed
qed

lemma rne_of_int [simp]: "rne (of_int k) = k"
  by (simp add: rne_def)

lemma rne_ge: "of_int k \<le> y \<Longrightarrow> k \<le> rne y"
proof -
  assume "of_int k \<le> y"
  then have "k \<le> \<lfloor>y\<rfloor>" by (simp add: le_floor_iff)
  with rne_cases[of y] show ?thesis by auto
qed

lemma rne_le: "y \<le> of_int k \<Longrightarrow> rne y \<le> k"
proof -
  assume a: "y \<le> of_int k"
  then have f: "\<lfloor>y\<rfloor> \<le> k" by (simp add: floor_le_iff) 
  show ?thesis
  proof (cases "rne y = \<lfloor>y\<rfloor>")
    case True
    then show ?thesis using f by simp
  next
    case False
    with rne_cases[of y] have r: "rne y = \<lfloor>y\<rfloor> + 1" and "1 / 2 \<le> y - of_int \<lfloor>y\<rfloor>" by auto
    then have "of_int \<lfloor>y\<rfloor> < (of_int k :: rat)" using a by linarith
    then have "\<lfloor>y\<rfloor> + 1 \<le> k" by simp
    then show ?thesis using r by simp
  qed
qed


lemma dblp_err:
  assumes "0 < x"
  shows "\<bar>dblp x - x\<bar> \<le> x / 2 ^ 53"
proof -
  define e where "e = ilog2 x - 52"
  define s :: rat where "s = 2 powi e"
  define t where "t = x / s"
  have s: "0 < s" unfolding s_def by (simp add: zero_less_power_int)
  have "2 powi (e + 52) \<le> x" using ilog2_bounds(1)[OF assms] by (simp add: e_def)
  then have "s * 2 ^ 52 \<le> x" unfolding s_def by (simp add: power_int_add)
  then have y: "2 ^ 52 \<le> t" using s by (simp add: t_def field_simps)
  have "\<bar>of_int (rne t) - t\<bar> \<le> 1 / 2" by (rule rne_err)
  also have "\<dots> \<le> t / 2 ^ 53" using y by simp
  finally have 1: "\<bar>of_int (rne t) - t\<bar> \<le> t / 2 ^ 53" .
  have 2: "\<bar>of_int (rne t) - t\<bar> * s \<le> t / 2 ^ 53 * s"
    by (rule mult_right_mono[OF 1]) (use s in simp)
  have 3: "\<bar>of_int (rne t) - t\<bar> * s = \<bar>(of_int (rne t) - t) * s\<bar>"
    using s by (simp add: abs_mult)
  have 4: "(of_int (rne t) - t) * s = of_int (rne t) * s - x"
    using s by (simp add: t_def left_diff_distrib)
  have 5: "t / 2 ^ 53 * s = x / 2 ^ 53" using s by (simp add: t_def)
  have 6: "dblp x = of_int (rne t) * s"
    by (simp add: dblp_def Let_def e_def[symmetric] s_def[symmetric] t_def)
  from 2 show ?thesis unfolding 3 4 5 6 .
qed

lemma dbl_err: "0 \<le> x \<Longrightarrow> \<bar>dbl x - x\<bar> \<le> x / 2 ^ 53"
  using dblp_err[of x] by (auto simp: dbl_def)


lemma dblp_decomp:
  assumes "0 < x"
  obtains e :: int and s :: rat where "s = 2 powi e" "0 < s" "2 ^ 52 \<le> x / s"
    "dblp x = of_int (rne (x / s)) * s"
proof -
  define e where "e = ilog2 x - 52"
  define s :: rat where "s = 2 powi e"
  have s: "0 < s" unfolding s_def by (simp add: zero_less_power_int)
  have "2 powi (e + 52) \<le> x" using ilog2_bounds(1)[OF assms] by (simp add: e_def)
  then have "s * 2 ^ 52 \<le> x" unfolding s_def by (simp add: power_int_add)
  then have y: "2 ^ 52 \<le> x / s" using s by (simp add: field_simps)
  have "dblp x = of_int (rne (x / s)) * s"
    by (simp add: dblp_def Let_def e_def[symmetric] s_def[symmetric])
  with s y show thesis using that[of s e] s_def by blast
qed

lemma dblp_ge_int:
  assumes "0 < n" "n \<le> 2 ^ 53" "of_int n \<le> x"
  shows "of_int n \<le> dblp x"
proof -
  have x: "0 < x" using assms(1,3) by (meson less_le_trans of_int_0_less_iff)
  from dblp_decomp[OF x] obtain e :: int and s :: rat where
    sdef: "s = 2 powi e" and s: "0 < s" and y: "2 ^ 52 \<le> x / s"
    and d: "dblp x = of_int (rne (x / s)) * s" by blast
  define r where "r = rne (x / s)"
  show ?thesis
  proof (cases "e \<le> 0")
    case True
    define k where "k = n * 2 ^ nat (- e)"
    have se: "s * 2 ^ nat (- e) = 1"
      using True unfolding sdef by (cases "e = 0") (simp_all add: power_int_def power_one_over)
    have "of_int k * s = of_int n * (s * 2 ^ nat (- e))" by (simp add: k_def)
    then have ks: "of_int k * s = of_int n" by (simp only: se mult_1_right)
    then have "of_int k = of_int n / s" using s by (simp add: field_simps)
    also have "\<dots> \<le> x / s" using s assms(3) by (simp add: divide_right_mono)
    finally have "k \<le> r" unfolding r_def by (rule rne_ge)
    then have "(of_int k :: rat) \<le> of_int r" by (simp only: of_int_le_iff)
    then have "of_int k * s \<le> of_int r * s" using s by (simp only: mult_le_cancel_right_pos)
    then show ?thesis unfolding ks d r_def .
  next
    case False
    then have "1 \<le> e" by simp
    then have "(2::rat) powi 1 \<le> 2 powi e" by (intro power_int_increasing) simp_all
    then have s2: "2 \<le> s" by (simp add: sdef)
    have "of_int (2 ^ 52) \<le> x / s" using y by simp
    then have "2 ^ 52 \<le> r" unfolding r_def by (rule rne_ge)
    then have r: "(2 ^ 52 :: rat) \<le> of_int r" by (simp add: numeral_power_le_of_int_cancel_iff)
    have "(2 ^ 52 :: rat) * 2 \<le> of_int r * s"
      by (rule mult_mono[OF r s2]) (use r in simp_all)
    moreover have "(of_int n :: rat) \<le> 2 ^ 53" using assms(2) by (simp add: of_int_le_numeral_power_cancel_iff)
    ultimately show ?thesis unfolding d r_def by simp
  qed
qed

lemma dblp_nonneg:
  assumes "0 < x"
  shows "0 \<le> dblp x"
proof -
  from dblp_decomp[OF assms] obtain e :: int and s :: rat where
    s: "0 < s" and y: "2 ^ 52 \<le> x / s" and d: "dblp x = of_int (rne (x / s)) * s" by blast
  have "of_int 0 \<le> x / s" using y by simp
  then have "0 \<le> rne (x / s)" by (rule rne_ge)
  then show ?thesis unfolding d using s by simp
qed

lemma dbl_ge_int:
  assumes "0 \<le> n" "n \<le> 2 ^ 53" "of_int n \<le> x"
  shows "of_int n \<le> dbl x"
proof (cases "n = 0")
  case True
  then have "0 \<le> x" using assms(3) by simp
  then show ?thesis using True dblp_nonneg[of x] by (simp add: dbl_def)
next
  case False
  then have n: "0 < n" using assms by simp
  then have x: "0 < x" using assms(3) by (meson less_le_trans of_int_0_less_iff)
  from dblp_ge_int[OF n assms(2,3)] x show ?thesis by (simp add: dbl_def)
qed

section \<open>Properties of the fee calculator\<close>

lemma dbl_nonneg: "0 \<le> x \<Longrightarrow> 0 \<le> dbl x"
  using dbl_ge_int[of 0 x] by simp

lemma dbl_bounds:
  assumes "0 \<le> x"
  shows "x * (999999999 / 1000000000) \<le> dbl x" and "dbl x \<le> x * (1000000001 / 1000000000)"
proof -
  have "x / 2 ^ 53 \<le> x / 1000000000" using assms by (intro divide_left_mono) simp_all
  with dbl_err[OF assms] have "\<bar>dbl x - x\<bar> \<le> x / 1000000000" by linarith
  then show "x * (999999999 / 1000000000) \<le> dbl x" and "dbl x \<le> x * (1000000001 / 1000000000)"
    by linarith+
qed

lemma Math_round_bounds: "x - 1 / 2 < Math_round x" "Math_round x \<le> x + 1 / 2"
  unfolding Math_round_def by linarith+

lemma Math_round_nonneg: "0 \<le> x \<Longrightarrow> 0 \<le> Math_round x"
  unfolding Math_round_def by simp

lemma Math_round_ge_int: "of_int n \<le> x + 1 / 2 \<Longrightarrow> of_int n \<le> Math_round x"
  unfolding Math_round_def by (simp add: le_floor_iff)


lemma rate_values:
  "dbl (49 / 1000) = 3530822107858469 / 72057594037927936"
  "dbl (39 / 1000) = 5620492334958379 / 144115188075855872"
  "dbl (29 / 1000) = 8358680908399641 / 288230376151711744"
  "dbl (19 / 1000) = 5476377146882523 / 288230376151711744"
  "dbl (15 / 1000) = 1080863910568919 / 72057594037927936"
  by code_simp+

lemma fdiv_100_less:
  assumes "0 \<le> T" "T \<le> 10000"
  shows "fdiv (of_nat a) 100 < of_int T \<longleftrightarrow> int a < 100 * T"
proof
  assume "int a < 100 * T"
  then have "int a \<le> 100 * T - 1" by simp
  then have "(of_int (int a) :: rat) \<le> of_int (100 * T - 1)" by (simp only: of_int_le_iff)
  then have x: "(of_nat a :: rat) / 100 \<le> of_int T - 1 / 100" by simp
  have "0 \<le> (of_nat a :: rat) / 100" by simp
  from dbl_bounds(2)[OF this] have "dbl (of_nat a / 100) \<le> of_nat a / 100 * (1000000001 / 1000000000)" .
  moreover have "(of_int T :: rat) \<le> 10000" using assms(2) by simp
  ultimately show "fdiv (of_nat a) 100 < of_int T" unfolding fdiv_def using x by linarith
next
  assume l: "fdiv (of_nat a) 100 < of_int T"
  show "int a < 100 * T"
  proof (rule ccontr)
    assume "\<not> int a < 100 * T"
    then have "100 * T \<le> int a" by simp
    then have "(of_int (100 * T) :: rat) \<le> of_int (int a)" by (simp only: of_int_le_iff)
    then have "of_int T \<le> (of_nat a :: rat) / 100" by simp
    moreover have "T \<le> 2 ^ 53" using assms(2) by simp
    ultimately have "of_int T \<le> dbl (of_nat a / 100)" using assms(1) by (intro dbl_ge_int)
    with l show False by (simp add: fdiv_def)
  qed
qed

lemma calculatePlatformFee_tiers:
  "calculatePlatformFee (of_nat a) =
    (if a < 10000 then fadd (Math_round (fmul (of_nat a) (dbl (49 / 1000)))) 30
     else if a < 50000 then fadd (Math_round (fmul (of_nat a) (dbl (39 / 1000)))) 30
     else if a < 100000 then fadd (Math_round (fmul (of_nat a) (dbl (29 / 1000)))) 30
     else if a < 250000 then fadd (Math_round (fmul (of_nat a) (dbl (19 / 1000)))) 30
     else Math_round (fmul (of_nat a) (dbl (15 / 1000))))"
  using fdiv_100_less[of 100 a] fdiv_100_less[of 500 a] fdiv_100_less[of 1000 a]
    fdiv_100_less[of 2500 a]
  by (simp add: calculatePlatformFee_def Let_def)

lemma fixed_fee_bounds:
  assumes "0 \<le> P"
  shows "30 \<le> fadd (Math_round (dbl P)) 30"
    and "fadd (Math_round (dbl P)) 30 \<le> P * (1001 / 1000) + 31"
proof -
  define r where "r = \<lfloor>dbl P + 1 / 2\<rfloor>"
  define u :: rat where "u = of_int r + 30"
  have R: "Math_round (dbl P) = of_int r" by (simp add: Math_round_def r_def)
  have "0 \<le> dbl P" using assms by (rule dbl_nonneg)
  then have r: "0 \<le> r" unfolding r_def by simp
  then have "(of_int 30 :: rat) \<le> of_int r + 30" by simp
  then have "of_int 30 \<le> dbl (of_int r + 30)" by (intro dbl_ge_int) simp_all
  then show "30 \<le> fadd (Math_round (dbl P)) 30" by (simp add: fadd_def R)
  have p: "0 \<le> u" using r by (simp add: u_def)
  have "of_int r \<le> dbl P + 1 / 2" unfolding r_def by linarith
  then have "u \<le> dbl P + 61 / 2" by (simp add: u_def)
  with dbl_bounds(2)[OF assms] dbl_bounds(2)[OF p] assms
  have "dbl u \<le> P * (1001 / 1000) + 31" by linarith
  then show "fadd (Math_round (dbl P)) 30 \<le> P * (1001 / 1000) + 31"
    by (simp add: fadd_def R u_def)
qed

lemma fee_lower:
  fixes a :: nat
  shows "a < 250000 \<Longrightarrow> 30 \<le> calculatePlatformFee (of_nat a)"
    and "250000 \<le> a \<Longrightarrow> 3750 \<le> calculatePlatformFee (of_nat a)"
proof -
  have P: "0 \<le> (of_nat a :: rat) * c" if "0 \<le> c" for c using that by simp
  show "30 \<le> calculatePlatformFee (of_nat a)" if "a < 250000"
    using that by (simp add: calculatePlatformFee_tiers fmul_def fixed_fee_bounds(1) P dbl_nonneg)
  show "3750 \<le> calculatePlatformFee (of_nat a)" if "250000 \<le> a"
  proof -
    define P where "P = (of_nat a :: rat) * (1080863910568919 / 72057594037927936)"
    have "(of_nat 250000 :: rat) \<le> of_nat a" using that by (simp only: of_nat_le_iff)
    then have a: "(250000 :: rat) \<le> of_nat a" by simp
    then have P0: "0 \<le> P" unfolding P_def by simp
    from dbl_bounds(1)[OF P0] a have "of_int 3750 \<le> dbl P + 1 / 2" unfolding P_def by simp
    then have "of_int 3750 \<le> Math_round (dbl P)" by (rule Math_round_ge_int)
    then have "3750 \<le> Math_round (fmul (of_nat a) (dbl (15 / 1000)))"
      unfolding fmul_def rate_values P_def by simp
    then show ?thesis using that by (simp add: calculatePlatformFee_tiers)
  qed
qed

lemma fee_upper:
  fixes a :: nat
  assumes "33 \<le> a"
  shows "calculatePlatformFee (of_nat a) < of_nat a"
proof -
  have "(of_nat 33 :: rat) \<le> of_nat a" using assms by (simp only: of_nat_le_iff)
  then have a: "(33 :: rat) \<le> of_nat a" by simp
  have plus: "fadd (Math_round (fmul (of_nat a) c)) 30 < of_nat a" if "0 \<le> c" "c \<le> 1 / 20" for c :: rat
  proof -
    have P: "0 \<le> of_nat a * c" using that by simp
    have "of_nat a * c \<le> of_nat a * (1 / 20)" using that by (intro mult_left_mono) simp_all
    with fixed_fee_bounds(2)[OF P] a show ?thesis unfolding fmul_def by linarith
  qed
  have flat: "Math_round (fmul (of_nat a) (dbl (15 / 1000))) < of_nat a"
  proof -
    define P where "P = (of_nat a :: rat) * (1080863910568919 / 72057594037927936)"
    have P: "0 \<le> P" unfolding P_def by simp
    from dbl_bounds(2)[OF P] Math_round_bounds(2)[of "dbl P"] a
    have "Math_round (dbl P) < of_nat a" unfolding P_def by linarith
    then show ?thesis unfolding fmul_def rate_values P_def .
  qed
  have rates: "0 \<le> dbl (49 / 1000)" "dbl (49 / 1000) \<le> 1 / 20"
    "0 \<le> dbl (39 / 1000)" "dbl (39 / 1000) \<le> 1 / 20"
    "0 \<le> dbl (29 / 1000)" "dbl (29 / 1000) \<le> 1 / 20"
    "0 \<le> dbl (19 / 1000)" "dbl (19 / 1000) \<le> 1 / 20"
    unfolding rate_values by simp_all
  show ?thesis
    unfolding calculatePlatformFee_tiers using plus[OF rates(1,2)] plus[OF rates(3,4)]
      plus[OF rates(5,6)] plus[OF rates(7,8)] flat
    by presburger
qed

lemma fee_small_values:
  "calculatePlatformFee 31 = 32" "calculatePlatformFee 32 = 32"
  by code_simp+

lemma fee_small:
  fixes a :: nat
  assumes "a \<le> 32"
  shows "of_nat a \<le> calculatePlatformFee (of_nat a)"
proof (cases "a \<le> 30")
  case True
  then have "(of_nat a :: rat) \<le> of_nat 30" by (simp only: of_nat_le_iff)
  moreover have "30 \<le> calculatePlatformFee (of_nat a)" using True by (intro fee_lower(1)) simp
  ultimately show ?thesis by simp
next
  case False
  with assms have "a = 31 \<or> a = 32" by arith
  then show ?thesis by (auto simp: fee_small_values)
qed

section \<open>Claims about the fee calculator\<close>

lemma fee_9999: "calculatePlatformFee 9999 = 520" by code_simp
lemma fee_10000: "calculatePlatformFee 10000 = 420" by code_simp
lemma fee_49999: "calculatePlatformFee 49999 = 1980" by code_simp
lemma fee_50000: "calculatePlatformFee 50000 = 1480" by code_simp
lemma fee_99999: "calculatePlatformFee 99999 = 2930" by code_simp
lemma fee_100000: "calculatePlatformFee 100000 = 1930" by code_simp
lemma fee_249999: "calculatePlatformFee 249999 = 4780" by code_simp
lemma fee_250000: "calculatePlatformFee 250000 = 3750" by code_simp
lemma fee_1: "calculatePlatformFee 1 = 30" by code_simp

text \<open>
  C2, as the spec lists the boundary values: the fee of 49999 cents would be 2180, of 50000
  cents 1980, of 99999 cents 3130, of 100000 cents 2930 and of 249999 cents 5050. The
  list does not hold of the code, which charges 1980 on 49999 cents.
\<close>

theorem fee_boundary_values_counterexample:
  "\<not> (calculatePlatformFee 9999 = 520 \<and> calculatePlatformFee 10000 = 420 \<and>
      calculatePlatformFee 49999 = 2180 \<and> calculatePlatformFee 50000 = 1980 \<and>
      calculatePlatformFee 99999 = 3130 \<and> calculatePlatformFee 100000 = 2930 \<and>
      calculatePlatformFee 249999 = 5050 \<and> calculatePlatformFee 250000 = 3750)"
  by (simp add: fee_49999)

text \<open>
  C2, amended: at the tier boundaries the fee calculator returns 520 for 9999 cents, 420 for
  10000, 1980 for 49999, 1480 for 50000, 2930 for 99999, 1930 for 100000, 4780 for 249999
  and 3750 for 250000.
\<close>

theorem fee_boundary_values:
  "calculatePlatformFee 9999 = 520 \<and> calculatePlatformFee 10000 = 420 \<and>
   calculatePlatformFee 49999 = 1980 \<and> calculatePlatformFee 50000 = 1480 \<and>
   calculatePlatformFee 99999 = 2930 \<and> calculatePlatformFee 100000 = 1930 \<and>
   calculatePlatformFee 249999 = 4780 \<and> calculatePlatformFee 250000 = 3750"
  by (simp only: fee_9999 fee_10000 fee_49999 fee_50000 fee_99999 fee_100000 fee_249999
      fee_250000)

text \<open>
  C3, as stated: the fee of every positive amount is below the amount. On one cent the
  fee is thirty cents.
\<close>

theorem fee_below_amount_counterexample:
  "\<not> (0 \<le> calculatePlatformFee 1 \<and> calculatePlatformFee 1 < 1)"
  by (simp add: fee_1)

text \<open>
  C3, amended: for every positive integer cent amount \<open>a\<close> the fee is not negative, and
  it is below \<open>a\<close> exactly when \<open>a\<close> is at least 33 cents.
\<close>

theorem fee_nonneg_and_below_amount:
  fixes a :: nat
  assumes "0 < a"
  shows "0 \<le> calculatePlatformFee (of_nat a) \<and>
         (calculatePlatformFee (of_nat a) < of_nat a \<longleftrightarrow> 33 \<le> a)"
proof -
  have "0 \<le> calculatePlatformFee (of_nat a)"
    using fee_lower(1)[of a] fee_lower(2)[of a] by (cases "a < 250000") simp_all
  moreover have "calculatePlatformFee (of_nat a) < of_nat a" if "33 \<le> a"
    using that by (rule fee_upper)
  moreover have "\<not> calculatePlatformFee (of_nat a) < of_nat a" if "\<not> 33 \<le> a"
    using fee_small[of a] that by simp
  ultimately show ?thesis by blast
qed

theorem fee_nonneg_and_below_amount_witness:
  "0 < (5000::nat) \<and> 0 \<le> calculatePlatformFee (of_nat 5000) \<and>
   (calculatePlatformFee (of_nat 5000) < of_nat 5000 \<longleftrightarrow> 33 \<le> (5000::nat))"
  using fee_nonneg_and_below_amount[of 5000] by simp

section \<open>Claims about the account router\<close>

lemma determineRouting_connect:
  assumes "determineRouting stripe db j = (r, calls)" "useStripeConnect r"
  shows "\<exists>acct account. connectedStripeAccountId r = Some acct \<and> acct \<noteq> [] \<and>
           acct \<noteq> PLATFORM_STRIPE_ACCOUNT_ID \<and> calls = [AccountsRetrieve acct] \<and>
           accounts_retrieve stripe acct = Inr account \<and> charges_enabled account \<and>
           connectedAccountChargesEnabled r"
  using assms
  by (auto simp: determineRouting_def platform_routing_def
      split: if_splits sum.splits option.splits)

lemma determineRouting_no_sessions:
  assumes "determineRouting stripe db j = (r, calls)"
  shows "session_creations calls = 0"
  using assms
  by (auto simp: determineRouting_def session_creations_def
      split: if_splits sum.splits option.splits)

lemma no_account_routes_to_platform:
  assumes "filter (\<lambda>p. profile_company_id p = company_id j \<and> truthy (stripe_account_id p)) (profiles db) = []"
  shows "fst (determineRouting stripe db j) = platform_routing"
proof (cases "select_company_profile db (company_id j)")
  case (Inl profileError)
  then show ?thesis by (simp add: determineRouting_def)
next
  case (Inr p)
  then have "filter (\<lambda>p. profile_company_id p = company_id j \<and> stripe_connected p = Some True) (profiles db) = [p]"
    unfolding select_company_profile_def
    by (cases "filter (\<lambda>p. profile_company_id p = company_id j \<and> stripe_connected p = Some True) (profiles db)" rule: single.cases) simp_all
  then have "p \<in> set (filter (\<lambda>p. profile_company_id p = company_id j \<and> stripe_connected p = Some True) (profiles db))"
    by simp
  then have "p \<in> set (profiles db)" "profile_company_id p = company_id j" by simp_all
  with assms have "\<not> truthy (stripe_account_id p)" by (auto simp: filter_empty_conv)
  then show ?thesis using Inr
    by (auto simp: determineRouting_def truthy_def split: option.splits)
qed

text \<open>
  C4: the router returns platform routing whenever no profile of the tenant stores a
  connected-account identifier; it does not select the connected account when the live
  query of the processor reports \<open>charges_enabled = false\<close> for the stored account, although
  the profile the query found is marked connected; and it does not select it when the live
  query fails.
\<close>

theorem router_falls_back_to_platform:
  "(filter (\<lambda>p. profile_company_id p = company_id j \<and> truthy (stripe_account_id p)) (profiles db) = []
      \<longrightarrow> fst (determineRouting stripe db j) = platform_routing) \<and>
   (select_company_profile db (company_id j) = Inr p \<and> stripe_account_id p = Some acct \<and>
    accounts_retrieve stripe acct = Inr account \<and> \<not> charges_enabled account
      \<longrightarrow> stripe_connected p = Some True \<and> \<not> useStripeConnect (fst (determineRouting stripe db j))) \<and>
   (select_company_profile db (company_id j) = Inr p \<and> stripe_account_id p = Some acct \<and>
    accounts_retrieve stripe acct = Inl err
      \<longrightarrow> \<not> useStripeConnect (fst (determineRouting stripe db j)))"
proof (intro conjI impI)
  assume "filter (\<lambda>p. profile_company_id p = company_id j \<and> truthy (stripe_account_id p)) (profiles db) = []"
  then show "fst (determineRouting stripe db j) = platform_routing"
    by (rule no_account_routes_to_platform)
next
  assume a: "select_company_profile db (company_id j) = Inr p \<and> stripe_account_id p = Some acct \<and>
    accounts_retrieve stripe acct = Inr account \<and> \<not> charges_enabled account"
  then have "filter (\<lambda>p. profile_company_id p = company_id j \<and> stripe_connected p = Some True) (profiles db) = [p]"
    unfolding select_company_profile_def
    by (cases "filter (\<lambda>p. profile_company_id p = company_id j \<and> stripe_connected p = Some True) (profiles db)" rule: single.cases) simp_all
  then have "p \<in> set (filter (\<lambda>p. profile_company_id p = company_id j \<and> stripe_connected p = Some True) (profiles db))"
    by simp
  then show "stripe_connected p = Some True" by simp
  from a show "\<not> useStripeConnect (fst (determineRouting stripe db j))"
    by (simp add: determineRouting_def platform_routing_def)
next
  assume "select_company_profile db (company_id j) = Inr p \<and> stripe_account_id p = Some acct \<and>
    accounts_retrieve stripe acct = Inl err"
  then show "\<not> useStripeConnect (fst (determineRouting stripe db j))"
    by (simp add: determineRouting_def platform_routing_def)
qed

theorem router_falls_back_to_platform_witness:
  "(filter (\<lambda>p. profile_company_id p = company_id ex_job \<and> truthy (stripe_account_id p))
      (profiles (ex_db\<lparr>profiles := [ex_profile\<lparr>stripe_account_id := None\<rparr>]\<rparr>)) = [] \<and>
    fst (determineRouting ex_stripe (ex_db\<lparr>profiles := [ex_profile\<lparr>stripe_account_id := None\<rparr>]\<rparr>) ex_job)
      = platform_routing) \<and>
   (select_company_profile ex_db (company_id ex_job) = Inr ex_profile \<and>
    stripe_account_id ex_profile = Some ''acct_tenant'' \<and>
    accounts_retrieve ex_stripe_down ''acct_tenant'' =
      Inr \<lparr>acct_id = ''acct_tenant'', details_submitted = True, charges_enabled = False\<rparr> \<and>
    stripe_connected ex_profile = Some True \<and>
    \<not> useStripeConnect (fst (determineRouting ex_stripe_down ex_db ex_job))) \<and>
   (select_company_profile ex_db (company_id ex_job) = Inr ex_profile \<and>
    accounts_retrieve (ex_stripe\<lparr>accounts_retrieve := (\<lambda>a. Inl ''timeout'')\<rparr>) ''acct_tenant'' = Inl ''timeout'' \<and>
    \<not> useStripeConnect (fst (determineRouting (ex_stripe\<lparr>accounts_retrieve := (\<lambda>a. Inl ''timeout'')\<rparr>) ex_db ex_job)))"
proof -
  have a: "filter (\<lambda>p. profile_company_id p = company_id ex_job \<and> truthy (stripe_account_id p))
      (profiles (ex_db\<lparr>profiles := [ex_profile\<lparr>stripe_account_id := None\<rparr>]\<rparr>)) = []"
    by (simp add: truthy_def)
  have p: "select_company_profile ex_db (company_id ex_job) = Inr ex_profile"
    "stripe_account_id ex_profile = Some ''acct_tenant''"
    by (simp_all add: select_company_profile_def ex_db_def ex_job_def ex_profile_def)
  have b: "accounts_retrieve ex_stripe_down ''acct_tenant'' =
      Inr \<lparr>acct_id = ''acct_tenant'', details_submitted = True, charges_enabled = False\<rparr>"
    by (simp add: ex_stripe_down_def ex_account_def)
  have c: "accounts_retrieve (ex_stripe\<lparr>accounts_retrieve := (\<lambda>a. Inl ''timeout'')\<rparr>) ''acct_tenant'' = Inl ''timeout''"
    by simp
  from router_falls_back_to_platform
      [where db = "ex_db\<lparr>profiles := [ex_profile\<lparr>stripe_account_id := None\<rparr>]\<rparr>"
         and j = ex_job and stripe = ex_stripe]
    router_falls_back_to_platform
      [where db = ex_db and j = ex_job and p = ex_profile and acct = "''acct_tenant''"
         and stripe = ex_stripe_down
         and account = "\<lparr>acct_id = ''acct_tenant'', details_submitted = True, charges_enabled = False\<rparr>"]
    router_falls_back_to_platform
      [where db = ex_db and j = ex_job and p = ex_profile and acct = "''acct_tenant''"
         and stripe = "ex_stripe\<lparr>accounts_retrieve := (\<lambda>a. Inl ''timeout'')\<rparr>"
         and err = "''timeout''"]
    a p b c
  show ?thesis by simp
qed

section \<open>Claims about checkout initiation\<close>

lemma basePrice_integral:
  assumes "basePriceInCents_of j = Some base"
  shows "\<exists>a::nat. base = of_nat a"
proof -
  from assms obtain p where p: "price j = Some p" "0 < p" "base = Math_round (fmul p 100)"
    by (auto simp: basePriceInCents_of_def split: option.splits if_splits)
  have "0 \<le> fmul p 100" unfolding fmul_def using p(2) by (intro dbl_nonneg) simp
  then have "0 \<le> \<lfloor>fmul p 100 + 1 / 2\<rfloor>" by simp
  then have "base = of_nat (nat \<lfloor>fmul p 100 + 1 / 2\<rfloor>)"
    unfolding p(3) Math_round_def by simp
  then show ?thesis ..
qed

lemma fee_ge_30: "30 \<le> calculatePlatformFee (of_nat a)"
  using fee_lower(1)[of a] fee_lower(2)[of a] by (cases "a < 250000") simp_all

lemma validated_fee_positive:
  assumes "validateRequest e req db = Inr v"
  shows "0 < platformFee v"
proof -
  from assms obtain j base where b: "basePriceInCents_of j = Some base"
    and v: "platformFee v = calculatePlatformFee base"
    by (auto simp: validateRequest_def Let_def
        split: if_splits json_input.splits option.splits sum.splits)
  from basePrice_integral[OF b] obtain a :: nat where "base = of_nat a" ..
  with fee_ge_30[of a] v show ?thesis by simp
qed

lemma ex_numbers:
  "Math_round (fmul 50 100) = 5000" "calculatePlatformFee 5000 = 275" "fadd 5000 275 = 5275"
  "fdiv 5000 100 = 50" "fdiv 275 100 = 11 / 4" "fdiv 5275 100 = 211 / 4"
  "0 < dbl (1 / 100)" "Math_round (fmul (dbl (1 / 100)) 100) = 1"
  "calculatePlatformFee 1 = 30" "fadd 1 30 = 31"
  by code_simp+

lemma ex_validated: "validateRequest ex_env ex_request ex_db = Inr ex_v"
  by (simp add: ex_v_def validateRequest_def ex_env_def ex_request_def ex_db_def truthy_def select_job_def
      ex_job_def ex_cheap_job_def basePriceInCents_of_def ex_numbers Let_def)

lemma ex_cheap:
  "select_job ex_db ''job-2'' = Inr ex_cheap_job" "basePriceInCents_of ex_cheap_job = Some 1"
  using ex_numbers(7)
  by (simp_all add: ex_db_def select_job_def ex_job_def ex_cheap_job_def basePriceInCents_of_def
      ex_numbers not_le)

lemma ex_routing:
  "determineRouting ex_stripe ex_db ex_job = (ex_connect, [AccountsRetrieve ''acct_tenant''])"
  by (simp add: ex_connect_def determineRouting_def ex_stripe_def ex_db_def ex_job_def ex_profile_def truthy_def
      select_company_profile_def PLATFORM_STRIPE_ACCOUNT_ID_def ex_account_def)

lemma ex_routing_down:
  "determineRouting ex_stripe_down ex_db ex_job =
     (platform_routing\<lparr>connectedStripeAccountId := Some ''acct_tenant''\<rparr>,
      [AccountsRetrieve ''acct_tenant''])"
  by (simp add: determineRouting_def ex_stripe_down_def ex_db_def ex_job_def ex_profile_def
      truthy_def select_company_profile_def PLATFORM_STRIPE_ACCOUNT_ID_def ex_account_def
      platform_routing_def)

text \<open>
  C8: for every job whose base price and fee total less than 50 cents, the orchestrator
  answers \<open>success: false\<close> and makes no call to the processor; the store is left as it was.
\<close>

theorem minimum_amount_rejected:
  assumes "req_method req \<noteq> ''OPTIONS''"
    and "req_json req = JsonObject (Some jobId)"
    and "select_job db jobId = Inr j"
    and "basePriceInCents_of j = Some base"
    and "fadd base (calculatePlatformFee base) < 50"
  shows "success (reply_json (reply (create_checkout e stripe req db))) = Some False \<and>
         stripe_calls (create_checkout e stripe req db) = [] \<and>
         db_after (create_checkout e stripe req db) = db"
proof -
  have "validateRequest e req db =
      (if \<not> truthy (STRIPE_SECRET_KEY e) then Inl missing_key
       else if jobId = [] then Inl (failure ''Job ID is required'')
       else Inl (failure ''Job price too low for payment processing (minimum $0.50 total including fee)''))"
    using assms(2-5) by (simp add: validateRequest_def Let_def)
  then show ?thesis using assms(1)
    by (simp add: create_checkout_def missing_key_def failure_def reply_json_def empty_object_def)
qed

theorem minimum_amount_rejected_witness:
  "req_method (ex_request\<lparr>req_json := JsonObject (Some ''job-2'')\<rparr>) \<noteq> ''OPTIONS'' \<and>
   req_json (ex_request\<lparr>req_json := JsonObject (Some ''job-2'')\<rparr>) = JsonObject (Some ''job-2'') \<and>
   select_job ex_db ''job-2'' = Inr ex_cheap_job \<and>
   basePriceInCents_of ex_cheap_job = Some 1 \<and>
   fadd 1 (calculatePlatformFee 1) < 50 \<and>
   success (reply_json (reply (create_checkout ex_env ex_stripe
      (ex_request\<lparr>req_json := JsonObject (Some ''job-2'')\<rparr>) ex_db))) = Some False \<and>
   stripe_calls (create_checkout ex_env ex_stripe
      (ex_request\<lparr>req_json := JsonObject (Some ''job-2'')\<rparr>) ex_db) = [] \<and>
   db_after (create_checkout ex_env ex_stripe
      (ex_request\<lparr>req_json := JsonObject (Some ''job-2'')\<rparr>) ex_db) = ex_db"
proof -
  have h: "req_method (ex_request\<lparr>req_json := JsonObject (Some ''job-2'')\<rparr>) \<noteq> ''OPTIONS''"
    "req_json (ex_request\<lparr>req_json := JsonObject (Some ''job-2'')\<rparr>) = JsonObject (Some ''job-2'')"
    "fadd 1 (calculatePlatformFee 1) < 50"
    by (simp_all add: ex_request_def ex_numbers)
  from minimum_amount_rejected[OF h(1) h(2) ex_cheap(1) ex_cheap(2) h(3), of ex_env ex_stripe]
    h ex_cheap show ?thesis by simp
qed

text \<open>
  C10: the fee of every positive integer cent amount is positive, at least 30 cents below
  250000 cents and at least 3750 cents from 250000 cents on; so for every validated request
  routed to the connected account the guard \<open>useStripeConnect && platformFee > 0\<close> lets the
  application fee and the destination through.
\<close>

theorem split_instructions_always_attached:
  fixes a :: nat
  assumes "0 < a"
  shows "0 < calculatePlatformFee (of_nat a) \<and>
         (a < 250000 \<longrightarrow> 30 \<le> calculatePlatformFee (of_nat a)) \<and>
         (250000 \<le> a \<longrightarrow> 3750 \<le> calculatePlatformFee (of_nat a)) \<and>
         (validateRequest e req db = Inr v \<and> useStripeConnect r \<longrightarrow>
            payment_intent (buildSessionConfig req v r) =
              Some \<lparr>application_fee_amount = platformFee v,
                    transfer_destination = connectedStripeAccountId r\<rparr>)"
proof (intro conjI impI)
  show "0 < calculatePlatformFee (of_nat a)" using fee_ge_30[of a] by simp
  show "30 \<le> calculatePlatformFee (of_nat a)" by (rule fee_ge_30)
  show "3750 \<le> calculatePlatformFee (of_nat a)" if "250000 \<le> a"
    using that by (rule fee_lower(2))
  show "payment_intent (buildSessionConfig req v r) =
      Some \<lparr>application_fee_amount = platformFee v, transfer_destination = connectedStripeAccountId r\<rparr>"
    if "validateRequest e req db = Inr v \<and> useStripeConnect r"
    using that validated_fee_positive[of e req db v]
    by (simp add: buildSessionConfig_def Let_def)
qed

theorem split_instructions_always_attached_witness:
  "0 < (5000::nat) \<and> 0 < calculatePlatformFee (of_nat 5000) \<and>
   (5000::nat) < 250000 \<and> 30 \<le> calculatePlatformFee (of_nat 5000) \<and>
   validateRequest ex_env ex_request ex_db = Inr ex_v \<and> useStripeConnect ex_connect \<and>
   payment_intent (buildSessionConfig ex_request ex_v ex_connect) =
     Some \<lparr>application_fee_amount = platformFee ex_v,
           transfer_destination = connectedStripeAccountId ex_connect\<rparr>"
  using split_instructions_always_attached[of 5000 ex_env ex_request ex_db ex_v ex_connect]
    ex_validated
  by (simp add: ex_connect_def)

text \<open>
  C5: when the session creation call fails under connect routing, the orchestrator makes
  one more creation call, with the split instructions removed and on the platform account,
  two creation calls in all; if that call succeeds the reply has \<open>success: true\<close>, the
  link, a warning, and no error. When the call fails under platform routing it is the only
  creation call, and the reply is \<open>success: false\<close> with the message of the error.
\<close>

theorem connect_failure_retries_platform_only:
  assumes "req_method req \<noteq> ''OPTIONS''"
    and "validateRequest e req db = Inr v"
    and "determineRouting stripe db (v_job v) = (r, calls)"
    and "checkout_sessions_create stripe (buildSessionConfig req v r)
           (if useStripeConnect r then connectedStripeAccountId r else None) = Inl stripeError"
  shows "(useStripeConnect r \<longrightarrow>
            payment_intent (buildSessionConfig req v r) \<noteq> None \<and>
            stripe_calls (create_checkout e stripe req db) =
              calls @ [CheckoutSessionsCreate (buildSessionConfig req v r) (connectedStripeAccountId r),
                       CheckoutSessionsCreate ((buildSessionConfig req v r)\<lparr>payment_intent := None\<rparr>) None] \<and>
            session_creations (stripe_calls (create_checkout e stripe req db)) = 2 \<and>
            (checkout_sessions_create stripe ((buildSessionConfig req v r)\<lparr>payment_intent := None\<rparr>) None
               = Inr fallbackSession \<longrightarrow>
               status (reply (create_checkout e stripe req db)) = 200 \<and>
               success (reply_json (reply (create_checkout e stripe req db))) = Some True \<and>
               url (reply_json (reply (create_checkout e stripe req db))) = Some (cs_url fallbackSession) \<and>
               warning (reply_json (reply (create_checkout e stripe req db))) =
                 Some ''Routed to platform account due to Stripe Connect issue'' \<and>
               error (reply_json (reply (create_checkout e stripe req db))) = None \<and>
               details (reply_json (reply (create_checkout e stripe req db))) = None)) \<and>
         (\<not> useStripeConnect r \<longrightarrow>
            stripe_calls (create_checkout e stripe req db) =
              calls @ [CheckoutSessionsCreate (buildSessionConfig req v r) None] \<and>
            session_creations (stripe_calls (create_checkout e stripe req db)) = 1 \<and>
            status (reply (create_checkout e stripe req db)) = 200 \<and>
            success (reply_json (reply (create_checkout e stripe req db))) = Some False \<and>
            error (reply_json (reply (create_checkout e stripe req db))) =
              Some (if stripeError = [] then ''Internal server error'' else stripeError))"
proof (intro conjI impI)
  assume c: "useStripeConnect r"
  from determineRouting_connect[OF assms(3) c] obtain acct where
    acct: "connectedStripeAccountId r = Some acct" "acct \<noteq> []" by blast
  from c validated_fee_positive[OF assms(2)]
  show "payment_intent (buildSessionConfig req v r) \<noteq> None"
    by (simp add: buildSessionConfig_def Let_def)
  from assms c acct
  show t: "stripe_calls (create_checkout e stripe req db) =
      calls @ [CheckoutSessionsCreate (buildSessionConfig req v r) (connectedStripeAccountId r),
               CheckoutSessionsCreate ((buildSessionConfig req v r)\<lparr>payment_intent := None\<rparr>) None]"
    by (simp add: create_checkout_def createSession_def Let_def truthy_def split: sum.splits)
  from determineRouting_no_sessions[OF assms(3)]
  show "session_creations (stripe_calls (create_checkout e stripe req db)) = 2"
    unfolding t by (simp add: session_creations_def)
  assume f: "checkout_sessions_create stripe ((buildSessionConfig req v r)\<lparr>payment_intent := None\<rparr>) None
               = Inr fallbackSession"
  from assms c acct f
  have "reply (create_checkout e stripe req db) = fallback_reply fallbackSession"
    by (simp add: create_checkout_def createSession_def Let_def truthy_def)
  then show "status (reply (create_checkout e stripe req db)) = 200"
    "success (reply_json (reply (create_checkout e stripe req db))) = Some True"
    "url (reply_json (reply (create_checkout e stripe req db))) = Some (cs_url fallbackSession)"
    "warning (reply_json (reply (create_checkout e stripe req db))) =
       Some ''Routed to platform account due to Stripe Connect issue''"
    "error (reply_json (reply (create_checkout e stripe req db))) = None"
    "details (reply_json (reply (create_checkout e stripe req db))) = None"
    by (simp_all add: fallback_reply_def reply_json_def empty_object_def)
next
  assume c: "\<not> useStripeConnect r"
  from assms c
  have o: "create_checkout e stripe req db =
      \<lparr>reply = caught stripeError, db_after = db,
       stripe_calls = calls @ [CheckoutSessionsCreate (buildSessionConfig req v r) None]\<rparr>"
    by (simp add: create_checkout_def createSession_def Let_def)
  from determineRouting_no_sessions[OF assms(3)]
  show "session_creations (stripe_calls (create_checkout e stripe req db)) = 1"
    unfolding o by (simp add: session_creations_def)
  from o show "stripe_calls (create_checkout e stripe req db) =
      calls @ [CheckoutSessionsCreate (buildSessionConfig req v r) None]"
    "status (reply (create_checkout e stripe req db)) = 200"
    "success (reply_json (reply (create_checkout e stripe req db))) = Some False"
    "error (reply_json (reply (create_checkout e stripe req db))) =
       Some (if stripeError = [] then ''Internal server error'' else stripeError)"
    by (simp_all add: caught_def reply_json_def empty_object_def)
qed

theorem connect_failure_retries_platform_only_witness:
  "(req_method ex_request \<noteq> ''OPTIONS'' \<and>
    validateRequest ex_env ex_request ex_db = Inr ex_v \<and>
    determineRouting ex_stripe ex_db (v_job ex_v) = (ex_connect, [AccountsRetrieve ''acct_tenant'']) \<and>
    checkout_sessions_create ex_stripe (buildSessionConfig ex_request ex_v ex_connect)
      (if useStripeConnect ex_connect then connectedStripeAccountId ex_connect else None)
      = Inl ''No such destination'' \<and>
    useStripeConnect ex_connect \<and>
    checkout_sessions_create ex_stripe
      ((buildSessionConfig ex_request ex_v ex_connect)\<lparr>payment_intent := None\<rparr>) None = Inr ex_session \<and>
    stripe_calls (create_checkout ex_env ex_stripe ex_request ex_db) =
      [AccountsRetrieve ''acct_tenant'',
       CheckoutSessionsCreate (buildSessionConfig ex_request ex_v ex_connect) (Some ''acct_tenant''),
       CheckoutSessionsCreate ((buildSessionConfig ex_request ex_v ex_connect)\<lparr>payment_intent := None\<rparr>) None] \<and>
    session_creations (stripe_calls (create_checkout ex_env ex_stripe ex_request ex_db)) = 2 \<and>
    success (reply_json (reply (create_checkout ex_env ex_stripe ex_request ex_db))) = Some True \<and>
    warning (reply_json (reply (create_checkout ex_env ex_stripe ex_request ex_db))) =
      Some ''Routed to platform account due to Stripe Connect issue'' \<and>
    error (reply_json (reply (create_checkout ex_env ex_stripe ex_request ex_db))) = None) \<and>
   (validateRequest ex_env ex_request ex_db = Inr ex_v \<and>
    determineRouting ex_stripe_down ex_db (v_job ex_v) =
      (platform_routing\<lparr>connectedStripeAccountId := Some ''acct_tenant''\<rparr>,
       [AccountsRetrieve ''acct_tenant'']) \<and>
    \<not> useStripeConnect (platform_routing\<lparr>connectedStripeAccountId := Some ''acct_tenant''\<rparr>) \<and>
    checkout_sessions_create ex_stripe_down
      (buildSessionConfig ex_request ex_v (platform_routing\<lparr>connectedStripeAccountId := Some ''acct_tenant''\<rparr>))
      None = Inl ''api down'' \<and>
    stripe_calls (create_checkout ex_env ex_stripe_down ex_request ex_db) =
      [AccountsRetrieve ''acct_tenant'',
       CheckoutSessionsCreate
         (buildSessionConfig ex_request ex_v (platform_routing\<lparr>connectedStripeAccountId := Some ''acct_tenant''\<rparr>))
         None] \<and>
    session_creations (stripe_calls (create_checkout ex_env ex_stripe_down ex_request ex_db)) = 1 \<and>
    success (reply_json (reply (create_checkout ex_env ex_stripe_down ex_request ex_db))) = Some False \<and>
    error (reply_json (reply (create_checkout ex_env ex_stripe_down ex_request ex_db))) = Some ''api down'')"
proof -
  have m: "req_method ex_request \<noteq> ''OPTIONS''" by (simp add: ex_request_def)
  have j: "v_job ex_v = ex_job" by (simp add: ex_v_def)
  have r1: "determineRouting ex_stripe ex_db (v_job ex_v) = (ex_connect, [AccountsRetrieve ''acct_tenant''])"
    by (simp add: j ex_routing)
  have r2: "determineRouting ex_stripe_down ex_db (v_job ex_v) =
      (platform_routing\<lparr>connectedStripeAccountId := Some ''acct_tenant''\<rparr>,
       [AccountsRetrieve ''acct_tenant''])"
    by (simp add: j ex_routing_down)
  have c1: "checkout_sessions_create ex_stripe (buildSessionConfig ex_request ex_v ex_connect)
      (if useStripeConnect ex_connect then connectedStripeAccountId ex_connect else None)
      = Inl ''No such destination''"
    by (simp add: ex_stripe_def ex_connect_def)
  have c2: "checkout_sessions_create ex_stripe_down
      (buildSessionConfig ex_request ex_v (platform_routing\<lparr>connectedStripeAccountId := Some ''acct_tenant''\<rparr>))
      (if useStripeConnect (platform_routing\<lparr>connectedStripeAccountId := Some ''acct_tenant''\<rparr>)
       then connectedStripeAccountId (platform_routing\<lparr>connectedStripeAccountId := Some ''acct_tenant''\<rparr>)
       else None) = Inl ''api down''"
    by (simp add: ex_stripe_down_def)
  have f: "checkout_sessions_create ex_stripe
      ((buildSessionConfig ex_request ex_v ex_connect)\<lparr>payment_intent := None\<rparr>) None = Inr ex_session"
    by (simp add: ex_stripe_def)
  have u: "useStripeConnect ex_connect" "connectedStripeAccountId ex_connect = Some ''acct_tenant''"
    "\<not> useStripeConnect (platform_routing\<lparr>connectedStripeAccountId := Some ''acct_tenant''\<rparr>)"
    by (simp_all add: ex_connect_def platform_routing_def)
  from connect_failure_retries_platform_only[OF m ex_validated r1 c1, of ex_session]
    connect_failure_retries_platform_only[OF m ex_validated r2 c2]
    m ex_validated r1 r2 c1 c2 f u
  show ?thesis by (simp add: session_creations_def)
qed

text \<open>
  C6 asks for \<open>pricing_info\<close> and \<open>routing_info\<close> in every successful reply. The reply of
  the platform-only fallback, here for the job of 50 dollars of a tenant whose connected
  account refuses the session, has neither.
\<close>

theorem fallback_reply_lacks_breakdown:
  "success (reply_json (reply (create_checkout ex_env ex_stripe ex_request ex_db))) = Some True \<and>
   warning (reply_json (reply (create_checkout ex_env ex_stripe ex_request ex_db))) =
     Some ''Routed to platform account due to Stripe Connect issue'' \<and>
   pricing_info (reply_json (reply (create_checkout ex_env ex_stripe ex_request ex_db))) = None \<and>
   routing_info (reply_json (reply (create_checkout ex_env ex_stripe ex_request ex_db))) = None"
proof -
  have "reply (create_checkout ex_env ex_stripe ex_request ex_db) = fallback_reply ex_session"
    by (simp add: create_checkout_def ex_validated ex_routing createSession_def Let_def truthy_def
        ex_v_def ex_connect_def)
      (simp add: ex_request_def ex_stripe_def)
  then show ?thesis by (simp add: fallback_reply_def reply_json_def empty_object_def)
qed

section \<open>Claims about the webhook reconciler\<close>



lemma ex_signed:
  "req_method ex_request \<noteq> ''OPTIONS''" "truthy (stripe_signature ex_request)"
  "truthy (STRIPE_SECRET_KEY ex_env)" "truthy (STRIPE_WEBHOOK_SECRET ex_env)"
  by (simp_all add: ex_request_def ex_env_def truthy_def)

lemma ex_unsigned:
  "req_method (ex_request\<lparr>stripe_signature := None\<rparr>) \<noteq> ''OPTIONS''"
  "\<not> truthy (stripe_signature (ex_request\<lparr>stripe_signature := None\<rparr>))"
  by (simp_all add: ex_request_def truthy_def)

text \<open>
  C7, as stated: a signature failure is answered with a 400-level status. An event that
  carries no signature header at all is answered with status 500.
\<close>

theorem unsigned_event_counterexample:
  "\<not> (400 \<le> status (fst (stripe_webhook ex_env (ex_rt ''r-0'') (ex_rt ''r-1'')
                          (ex_request\<lparr>stripe_signature := None\<rparr>) ex_db)) \<and>
      status (fst (stripe_webhook ex_env (ex_rt ''r-0'') (ex_rt ''r-1'')
                          (ex_request\<lparr>stripe_signature := None\<rparr>) ex_db)) < 500)"
  using ex_unsigned by (simp add: stripe_webhook_def server_error_def)

text \<open>
  C7, amended: an event whose signature header is present and not empty and which fails the
  verification call (with both secrets configured; as the handler is written, every such
  event fails it) is answered with status 400; an event whose signature header is missing
  or empty is answered with status 500, and so is one that arrives while a secret is not
  configured. In every case the store, the status of the referenced job included, is
  unchanged.
\<close>

theorem signature_failure_changes_nothing:
  assumes "req_method req \<noteq> ''OPTIONS''"
  shows "snd (stripe_webhook e rt rt' req db) = db \<and>
         (truthy (stripe_signature req) \<and> truthy (STRIPE_SECRET_KEY e) \<and>
          truthy (STRIPE_WEBHOOK_SECRET e) \<longrightarrow>
            webhooks_constructEvent (req_text req) (or_default (stripe_signature req) [])
              (or_default (STRIPE_WEBHOOK_SECRET e) []) \<noteq> Inr event \<and>
            fst (stripe_webhook e rt rt' req db) =
              \<lparr>status = 400, body = Text ''Webhook signature verification failed''\<rparr>) \<and>
         (\<not> truthy (stripe_signature req) \<longrightarrow>
            status (fst (stripe_webhook e rt rt' req db)) = 500 \<and>
            body (fst (stripe_webhook e rt rt' req db)) =
              Json (empty_object\<lparr>error := Some ''No Stripe signature found''\<rparr>)) \<and>
         (truthy (stripe_signature req) \<and>
          (\<not> truthy (STRIPE_SECRET_KEY e) \<or> \<not> truthy (STRIPE_WEBHOOK_SECRET e)) \<longrightarrow>
            status (fst (stripe_webhook e rt rt' req db)) = 500 \<and>
            body (fst (stripe_webhook e rt rt' req db)) =
              Json (empty_object\<lparr>error := Some ''Missing Stripe configuration''\<rparr>))"
  using assms
  by (auto simp: stripe_webhook_def webhooks_constructEvent_def server_error_def)

theorem signature_failure_changes_nothing_witness:
  "req_method ex_request \<noteq> ''OPTIONS'' \<and> truthy (stripe_signature ex_request) \<and>
   truthy (STRIPE_SECRET_KEY ex_env) \<and> truthy (STRIPE_WEBHOOK_SECRET ex_env) \<and>
   stripe_webhook ex_env (ex_rt ''r-0'') (ex_rt ''r-1'') ex_request ex_db =
     (\<lparr>status = 400, body = Text ''Webhook signature verification failed''\<rparr>, ex_db) \<and>
   req_method (ex_request\<lparr>stripe_signature := None\<rparr>) \<noteq> ''OPTIONS'' \<and>
   \<not> truthy (stripe_signature (ex_request\<lparr>stripe_signature := None\<rparr>)) \<and>
   status (fst (stripe_webhook ex_env (ex_rt ''r-0'') (ex_rt ''r-1'')
                  (ex_request\<lparr>stripe_signature := None\<rparr>) ex_db)) = 500 \<and>
   snd (stripe_webhook ex_env (ex_rt ''r-0'') (ex_rt ''r-1'')
          (ex_request\<lparr>stripe_signature := None\<rparr>) ex_db) = ex_db \<and>
   truthy (stripe_signature (ex_request\<lparr>stripe_signature := Some ''forged''\<rparr>)) \<and>
   \<not> truthy (STRIPE_WEBHOOK_SECRET (ex_env\<lparr>STRIPE_WEBHOOK_SECRET := None\<rparr>)) \<and>
   status (fst (stripe_webhook (ex_env\<lparr>STRIPE_WEBHOOK_SECRET := None\<rparr>) (ex_rt ''r-0'')
                  (ex_rt ''r-1'') (ex_request\<lparr>stripe_signature := Some ''forged''\<rparr>) ex_db)) = 500"
proof -
  have f: "req_method (ex_request\<lparr>stripe_signature := Some ''forged''\<rparr>) \<noteq> ''OPTIONS''"
    "truthy (stripe_signature (ex_request\<lparr>stripe_signature := Some ''forged''\<rparr>))"
    "\<not> truthy (STRIPE_WEBHOOK_SECRET (ex_env\<lparr>STRIPE_WEBHOOK_SECRET := None\<rparr>))"
    by (simp_all add: ex_request_def truthy_def)
  from signature_failure_changes_nothing[OF ex_signed(1),
      of ex_env "ex_rt ''r-0''" "ex_rt ''r-1''" ex_db]
    signature_failure_changes_nothing[OF ex_unsigned(1),
      of ex_env "ex_rt ''r-0''" "ex_rt ''r-1''" ex_db]
    signature_failure_changes_nothing[OF f(1),
      of "ex_env\<lparr>STRIPE_WEBHOOK_SECRET := None\<rparr>" "ex_rt ''r-0''" "ex_rt ''r-1''" ex_db]
    ex_signed ex_unsigned f
  show ?thesis by (simp add: prod_eq_iff)
qed





section \<open>Claims about account onboarding\<close>

lemma ex_user:
  "req_method ex_request \<noteq> ''OPTIONS''"
  "authorization ex_request = Some ''Bearer token-1''" "''Bearer token-1'' \<noteq> []"
  "ex_getUser (remove_first ''Bearer '' ''Bearer token-1'') =
     Inr \<lparr>user_id = ''user-1'', user_email = Some ''ada@example.com''\<rparr>"
  "truthy (user_email \<lparr>user_id = ''user-1'', user_email = Some ''ada@example.com''\<rparr>)"
  "single (filter (\<lambda>p. profile_id p = user_id \<lparr>user_id = ''user-1'', user_email = Some ''ada@example.com''\<rparr>)
     (profiles ex_db)) = Inr ex_profile"
  "stripe_account_id ex_profile = Some ''acct_tenant''" "''acct_tenant'' \<noteq> []"
  "truthy (STRIPE_SECRET_KEY ex_env)"
  by (simp_all add: ex_request_def ex_getUser_def truthy_def ex_db_def ex_profile_def ex_env_def)

text \<open>
  C9, as stated: the reply of the short circuit would carry \<open>success: false\<close>, and a
  processor report of enabled charges would be enough for it. The reply carries
  \<open>success: true\<close>, and an account with enabled charges whose details are not submitted
  gets a new onboarding link.
\<close>

theorem already_connected_counterexample:
  "\<not> (success (reply_json (reply (stripe_connect ex_env ex_stripe ex_getUser (ex_rt ''r-0'')
            ex_request ex_db))) = Some False) \<and>
   charges_enabled \<lparr>acct_id = ''acct_tenant'', details_submitted = False, charges_enabled = True\<rparr> \<and>
   stripe_calls (stripe_connect ex_env (ex_stripe\<lparr>accounts_retrieve := ex_account False True\<rparr>)
      ex_getUser (ex_rt ''r-0'') ex_request ex_db) =
     [AccountsRetrieve ''acct_tenant'', AccountLinksCreate ''acct_tenant'']"
proof -
  have "reply (stripe_connect ex_env ex_stripe ex_getUser (ex_rt ''r-0'') ex_request ex_db) =
     \<lparr>status = 200,
      body = Json (empty_object\<lparr>success := Some True, url := Some dashboard_url,
               already_connected := Some True\<rparr>)\<rparr>"
    using ex_user
    by (simp add: stripe_connect_def truthy_def or_default_def Let_def ex_stripe_def ex_account_def)
  then have "success (reply_json (reply (stripe_connect ex_env ex_stripe ex_getUser (ex_rt ''r-0'')
      ex_request ex_db))) = Some True"
    by (simp add: reply_json_def empty_object_def)
  moreover have "stripe_calls (stripe_connect ex_env (ex_stripe\<lparr>accounts_retrieve := ex_account False True\<rparr>)
      ex_getUser (ex_rt ''r-0'') ex_request ex_db) =
     [AccountsRetrieve ''acct_tenant'', AccountLinksCreate ''acct_tenant'']"
    using ex_user
    by (simp add: stripe_connect_def start_onboarding_def truthy_def or_default_def Let_def
        ex_stripe_def ex_account_def)
  ultimately show ?thesis by simp
qed

text \<open>
  C9, amended: when the calling user has a stored account and the processor reports its
  details submitted and its charges enabled, the operation replies
  \<open>{success: true, url, already_connected: true}\<close> with status 200 and creates no
  onboarding link: its only processor call is the account query.
\<close>

theorem already_connected_short_circuit:
  assumes "req_method req \<noteq> ''OPTIONS''"
    and "authorization req = Some header" "header \<noteq> []"
    and "getUser (remove_first ''Bearer '' header) = Inr user" "truthy (user_email user)"
    and "single (filter (\<lambda>p. profile_id p = user_id user) (profiles db)) = Inr p"
    and "stripe_account_id p = Some acct" "acct \<noteq> []"
    and "truthy (STRIPE_SECRET_KEY e)"
    and "accounts_retrieve stripe acct = Inr account"
    and "details_submitted account" "charges_enabled account"
  shows "reply (stripe_connect e stripe getUser rt req db) =
           \<lparr>status = 200,
            body = Json (empty_object\<lparr>success := Some True, url := Some dashboard_url,
                     already_connected := Some True\<rparr>)\<rparr> \<and>
         stripe_calls (stripe_connect e stripe getUser rt req db) = [AccountsRetrieve acct]"
  using assms by (simp add: stripe_connect_def truthy_def or_default_def Let_def)

theorem already_connected_short_circuit_witness:
  "req_method ex_request \<noteq> ''OPTIONS'' \<and>
   authorization ex_request = Some ''Bearer token-1'' \<and> ''Bearer token-1'' \<noteq> [] \<and>
   ex_getUser (remove_first ''Bearer '' ''Bearer token-1'') =
     Inr \<lparr>user_id = ''user-1'', user_email = Some ''ada@example.com''\<rparr> \<and>
   truthy (user_email \<lparr>user_id = ''user-1'', user_email = Some ''ada@example.com''\<rparr>) \<and>
   single (filter (\<lambda>p. profile_id p = user_id \<lparr>user_id = ''user-1'', user_email = Some ''ada@example.com''\<rparr>)
     (profiles ex_db)) = Inr ex_profile \<and>
   stripe_account_id ex_profile = Some ''acct_tenant'' \<and> ''acct_tenant'' \<noteq> [] \<and>
   truthy (STRIPE_SECRET_KEY ex_env) \<and>
   accounts_retrieve ex_stripe ''acct_tenant'' =
     Inr \<lparr>acct_id = ''acct_tenant'', details_submitted = True, charges_enabled = True\<rparr> \<and>
   reply (stripe_connect ex_env ex_stripe ex_getUser (ex_rt ''r-0'') ex_request ex_db) =
     \<lparr>status = 200,
      body = Json (empty_object\<lparr>success := Some True, url := Some dashboard_url,
               already_connected := Some True\<rparr>)\<rparr> \<and>
   stripe_calls (stripe_connect ex_env ex_stripe ex_getUser (ex_rt ''r-0'') ex_request ex_db) =
     [AccountsRetrieve ''acct_tenant'']"
proof -
  have a: "accounts_retrieve ex_stripe ''acct_tenant'' =
     Inr \<lparr>acct_id = ''acct_tenant'', details_submitted = True, charges_enabled = True\<rparr>"
    by (simp add: ex_stripe_def ex_account_def)
  have d: "details_submitted \<lparr>acct_id = ''acct_tenant'', details_submitted = True, charges_enabled = True\<rparr>"
    "charges_enabled \<lparr>acct_id = ''acct_tenant'', details_submitted = True, charges_enabled = True\<rparr>"
    by simp_all
  from already_connected_short_circuit
      [where req = ex_request and header = "''Bearer token-1''" and getUser = ex_getUser
         and user = "\<lparr>user_id = ''user-1'', user_email = Some ''ada@example.com''\<rparr>"
         and db = ex_db and p = ex_profile and acct = "''acct_tenant''" and e = ex_env
         and stripe = ex_stripe and rt = "ex_rt ''r-0''"
         and account = "\<lparr>acct_id = ''acct_tenant'', details_submitted = True, charges_enabled = True\<rparr>",
       OF ex_user a d]
    ex_user a
  show ?thesis by simp
qed

end
